theory Spec2Isabelle
  imports Main
begin

section \<open>Shell-command execution of the Obsidian 'Shell commands' plugin\<close>

text \<open>
  The development embeds the executor (\<open>ShellCommandExecutor\<close>), the shell abstraction
  (\<open>Shell.getWorkingDirectory\<close>), the command registration of the plugin class and the
  default value of a prompt field. JavaScript strings are \<open>string\<close>s (lists of code
  units), \<open>null\<close> and \<open>undefined\<close> are \<open>None\<close>, exit codes and IDs are \<open>int\<close>s, and
  everything a method does besides returning (notices, calls into collaborators) is
  recorded, in order, as a list of effects. What the code reads from classes and
  modules outside the files at hand (the settings, the file system, the shell, the
  parsing process, the preactions) is a parameter of the definitions.
\<close>

subsection \<open>JavaScript and Node built-ins the code calls\<close>

text \<open>
  Strings are lists of code units below 256. \<open>String.prototype.trim\<close> and the regular
  expression class \<open>\s\<close> take the same characters as white space; in this range they
  are tab, line feed, vertical tab, form feed, carriage return, space and no-break space.
\<close>

definition is_js_whitespace :: "char \<Rightarrow> bool" where
  "is_js_whitespace c =
    (c \<in> set [CHR 0x09, CHR 0x0A, CHR 0x0B, CHR 0x0C, CHR 0x0D, CHR 0x20, CHR 0xA0])"

definition trim :: "string \<Rightarrow> string" where
  "trim s = rev (dropWhile is_js_whitespace (rev (dropWhile is_js_whitespace s)))"

text \<open>\<open>String(n)\<close> for an integer \<open>n\<close>: its decimal digits, with a minus sign below zero.\<close>

definition digit_char :: "nat \<Rightarrow> char" where
  "digit_char d = ''0123456789'' ! (d mod 10)"

fun String_nat :: "nat \<Rightarrow> string" where
  "String_nat n = (if n < 10 then [digit_char n] else String_nat (n div 10) @ [digit_char (n mod 10)])"

declare String_nat.simps [simp del]

definition String_int :: "int \<Rightarrow> string" where
  "String_int n = (if n < 0 then CHR ''-'' # String_nat (nat (- n)) else String_nat (nat n))"

text \<open>
  \<open>Array.prototype.join(separator)\<close> on strings.
\<close>

fun join_strings :: "string \<Rightarrow> string list \<Rightarrow> string" where
  "join_strings sep [] = []"
| "join_strings sep [x] = x"
| "join_strings sep (x # y # rest) = x @ sep @ join_strings sep (y # rest)"

text \<open>
  The test \<open>message.match(/spawn\s+ENAMETOOLONG/i)\<close>: somewhere in the message stands
  \<open>spawn\<close>, then at least one white space character, then \<open>ENAMETOOLONG\<close>, letters
  compared without case. After the longest run of white space the next character must
  start \<open>ENAMETOOLONG\<close>, which is no white space, so no shorter run can match instead.
\<close>

definition ascii_lower :: "char \<Rightarrow> char" where
  "ascii_lower c =
    (case map_of (zip ''ABCDEFGHIJKLMNOPQRSTUVWXYZ'' ''abcdefghijklmnopqrstuvwxyz'') c of
      None \<Rightarrow> c | Some l \<Rightarrow> l)"

fun starts_with_ignoring_case :: "string \<Rightarrow> string \<Rightarrow> bool" where
  "starts_with_ignoring_case [] s = True"
| "starts_with_ignoring_case (p # ps) [] = False"
| "starts_with_ignoring_case (p # ps) (c # cs) =
    (ascii_lower p = ascii_lower c \<and> starts_with_ignoring_case ps cs)"

definition spawn_ENAMETOOLONG_here :: "string \<Rightarrow> bool" where
  "spawn_ENAMETOOLONG_here s =
    (starts_with_ignoring_case ''spawn'' s \<and>
     (case drop 5 s of
        [] \<Rightarrow> False
      | c # rest \<Rightarrow> is_js_whitespace c \<and>
          starts_with_ignoring_case ''ENAMETOOLONG'' (dropWhile is_js_whitespace rest)))"

fun matches_spawn_ENAMETOOLONG :: "string \<Rightarrow> bool" where
  "matches_spawn_ENAMETOOLONG [] = False"
| "matches_spawn_ENAMETOOLONG (c # cs) =
    (spawn_ENAMETOOLONG_here (c # cs) \<or> matches_spawn_ENAMETOOLONG cs)"

text \<open>
  Node's \<open>path\<close> module is the one of the host platform; the code uses its
  \<open>isAbsolute\<close> and its \<open>join\<close> (of two paths).
\<close>

record path_module =
  isAbsolute :: "string \<Rightarrow> bool"
  join :: "string \<Rightarrow> string \<Rightarrow> string"

text \<open>
  \<open>path.posix\<close>: a path is absolute when it starts with a slash; \<open>join\<close> puts a slash
  between the non-empty arguments and normalizes the result, which drops empty and
  \<open>.\<close> segments and lets \<open>..\<close> remove the segment before it (above the start of a
  relative path \<open>..\<close> is kept).
\<close>

definition posix_isAbsolute :: "string \<Rightarrow> bool" where
  "posix_isAbsolute p = (case p of [] \<Rightarrow> False | c # _ \<Rightarrow> c = CHR ''/'')"

fun split_slash :: "string \<Rightarrow> string list" where
  "split_slash [] = [[]]"
| "split_slash (c # cs) =
    (if c = CHR ''/'' then [] # split_slash cs
     else (case split_slash cs of [] \<Rightarrow> [[c]] | s # ss \<Rightarrow> (c # s) # ss))"

fun normalize_segments :: "bool \<Rightarrow> string list \<Rightarrow> string list \<Rightarrow> string list" where
  "normalize_segments allowAboveRoot res [] = res"
| "normalize_segments allowAboveRoot res (seg # segs) =
    (if seg = [] \<or> seg = ''.'' then normalize_segments allowAboveRoot res segs
     else if seg = ''..'' then
       (if res \<noteq> [] \<and> last res \<noteq> ''..'' then normalize_segments allowAboveRoot (butlast res) segs
        else if allowAboveRoot then normalize_segments allowAboveRoot (res @ [''..'']) segs
        else normalize_segments allowAboveRoot res segs)
     else normalize_segments allowAboveRoot (res @ [seg]) segs)"

definition posix_normalize :: "string \<Rightarrow> string" where
  "posix_normalize p =
    (if p = [] then ''.''
     else
       (let absolute = posix_isAbsolute p;
            trailingSeparator = (last p = CHR ''/'');
            normalized = join_strings ''/'' (normalize_segments (\<not> absolute) [] (split_slash p))
        in if normalized = [] then
             (if absolute then ''/'' else if trailingSeparator then ''./'' else ''.'')
           else
             (if absolute then ''/'' else []) @ normalized @
             (if trailingSeparator then ''/'' else [])))"

definition posix_join :: "string \<Rightarrow> string \<Rightarrow> string" where
  "posix_join a b =
    (let joined = (if a = [] then b else if b = [] then a else a @ ''/'' @ b)
     in if joined = [] then ''.'' else posix_normalize joined)"

definition posix :: path_module where
  "posix = \<lparr>isAbsolute = posix_isAbsolute, join = posix_join\<rparr>"

text \<open>
  \<open>path.win32.isAbsolute\<close>: the path starts with a separator, or with a drive letter, a
  colon and a separator.
\<close>

definition isPathSeparator :: "char \<Rightarrow> bool" where
  "isPathSeparator c = (c = CHR ''/'' \<or> c = CHR 0x5C)"

definition isWindowsDeviceRoot :: "char \<Rightarrow> bool" where
  "isWindowsDeviceRoot c =
    (c \<in> set ''ABCDEFGHIJKLMNOPQRSTUVWXYZ'' \<or> c \<in> set ''abcdefghijklmnopqrstuvwxyz'')"

definition win32_isAbsolute :: "string \<Rightarrow> bool" where
  "win32_isAbsolute p =
    (case p of
      [] \<Rightarrow> False
    | c # rest \<Rightarrow>
        isPathSeparator c \<or>
        (case rest of
          colon # sep # _ \<Rightarrow> isWindowsDeviceRoot c \<and> colon = CHR '':'' \<and> isPathSeparator sep
        | _ \<Rightarrow> False))"

subsection \<open>Streams, child processes and output handlers\<close>

text \<open>
  A readable stream of the child process: \<open>read()\<close> returns its buffered content or
  \<open>null\<close>. The child process owns a standard input, which is only written to, and two
  readable streams; each of the three may be \<open>null\<close>.
\<close>

datatype readable = Readable "string option"

fun read :: "readable \<Rightarrow> string option" where
  "read (Readable content) = content"

text \<open>\<open>x ?? ""\<close> on the result of \<open>read()\<close>.\<close>

fun or_empty :: "string option \<Rightarrow> string" where
  "or_empty None = []"
| "or_empty (Some s) = s"

datatype writable = Writable

record child_process =
  stdin :: "writable option"
  stdout :: "readable option"
  stderr :: "readable option"

datatype executor_exception = Exception string

text \<open>
  \<open>OutputStream\<close> is \<open>"stdout" | "stderr"\<close>. \<open>OutputHandlerConfigurations\<close> gives
  every stream its configuration, of which the executor reads and writes the
  \<open>handler\<close> code.
\<close>

datatype OutputStream = Stdout | Stderr

type_synonym OutputHandlerCode = string

record OutputHandlerConfiguration =
  handler :: OutputHandlerCode

type_synonym OutputHandlerConfigurations = "OutputStream \<Rightarrow> OutputHandlerConfiguration"

text \<open>
  How a promise ends: it resolves to a value, it rejects with a message, or it never
  settles. A callback given to \<open>then\<close> runs only once the promise has resolved.
\<close>

datatype 'a promise = Resolves 'a | Rejects string | NeverSettles

subsection \<open>Buffered output: the \<open>exit\<close> listener of \<open>handleBufferedOutput\<close>\<close>

text \<open>
  The lines \<open>debugLog\<close> receives in the listener, one constructor per call; they name
  the branch taken.
\<close>

datatype buffered_debug =
    CommandExecutedAndFailed "int option" string
  | UserHasIgnoredThisError
  | WillDisplayTheError
  | Code0StderrIgnored
  | Code0StderrRelayed
  | NoErrors

text \<open>
  The arguments of the call to \<open>handleBufferedOutput\<close> of \<open>OutputChannelFunctions\<close> that
  ends both branches of the listener: the two contents and the exit code handed over.
\<close>

record buffered_dispatch =
  dispatched_stdout :: string
  dispatched_stderr :: string
  dispatched_exitCode :: "int option"

text \<open>
  \<open>handleBufferedOutput_onExit ignore_error_codes cp exitCode\<close> is the body of the
  listener; \<open>ignore_error_codes\<close> is \<open>t_shell_command.getIgnoreErrorCodes()\<close>.
\<close>

definition handleBufferedOutput_onExit ::
  "int list \<Rightarrow> child_process \<Rightarrow> int option
    \<Rightarrow> executor_exception + (buffered_debug list \<times> buffered_dispatch)" where
  "handleBufferedOutput_onExit ignore_error_codes cp exitCode =
    (case (stdout cp, stderr cp) of
      (Some out, Some err) \<Rightarrow>
        (let stdout_content = or_empty (read out);
             stderr_content = or_empty (read err)
         in
          if (case exitCode of None \<Rightarrow> True | Some c \<Rightarrow> c > 0) then
            (if (case exitCode of None \<Rightarrow> False | Some c \<Rightarrow> c \<in> set ignore_error_codes) then
               Inr ([CommandExecutedAndFailed exitCode stderr_content, UserHasIgnoredThisError],
                    \<lparr>dispatched_stdout = stdout_content, dispatched_stderr = [],
                     dispatched_exitCode = None\<rparr>)
             else
               Inr ([CommandExecutedAndFailed exitCode stderr_content, WillDisplayTheError],
                    \<lparr>dispatched_stdout = stdout_content, dispatched_stderr = stderr_content,
                     dispatched_exitCode = exitCode\<rparr>))
          else
            (if length stderr_content > 0 then
               (if 0 \<in> set ignore_error_codes then
                  Inr ([Code0StderrIgnored],
                       \<lparr>dispatched_stdout = stdout_content, dispatched_stderr = [],
                        dispatched_exitCode = Some 0\<rparr>)
                else
                  Inr ([Code0StderrRelayed],
                       \<lparr>dispatched_stdout = stdout_content, dispatched_stderr = stderr_content,
                        dispatched_exitCode = Some 0\<rparr>))
             else
               Inr ([NoErrors],
                    \<lparr>dispatched_stdout = stdout_content, dispatched_stderr = stderr_content,
                     dispatched_exitCode = Some 0\<rparr>)))
    | _ \<Rightarrow> Inl (Exception ''Child process's stdout and/or stderr stream is null.''))"

text \<open>
  The outcome is an error shown to the user when the listener logs that it will display
  the error and dispatches the exit code and the stderr content unchanged.
\<close>

definition shown_as_error :: "int option \<Rightarrow> string \<Rightarrow> string
    \<Rightarrow> executor_exception + (buffered_debug list \<times> buffered_dispatch) \<Rightarrow> bool" where
  "shown_as_error exitCode out err r =
    (r = Inr ([CommandExecutedAndFailed exitCode err, WillDisplayTheError],
              \<lparr>dispatched_stdout = out, dispatched_stderr = err,
               dispatched_exitCode = exitCode\<rparr>))"

text \<open>An example: a child process with all streams, whose two outputs hold the given contents.\<close>

definition example_outputs :: "string option \<Rightarrow> string option \<Rightarrow> child_process" where
  "example_outputs out err =
    \<lparr>stdin = Some Writable, stdout = Some (Readable out), stderr = Some (Readable err)\<rparr>"

subsection \<open>Realtime output: the \<open>exit\<close> listener of \<open>handleRealtimeOutput\<close>\<close>

text \<open>
  \<open>outputChannels\<close>, built by \<open>startRealtimeOutputHandling\<close>, is an object whose own
  properties are stream names (a stream whose output is ignored has none); it is kept as
  the list of its properties in enumeration order, each holding an \<open>OutputChannel\<close>
  object (named by a number, its identity) or \<open>undefined\<close>.
\<close>

type_synonym OutputChannel = nat

type_synonym OutputChannels = "(OutputStream \<times> OutputChannel option) list"

text \<open>A call \<open>outputChannel.endRealtime(exitCode)\<close>.\<close>

datatype realtime_call = EndRealtime OutputChannel "int option"

text \<open>
  The \<open>for\<close> loop of the \<open>exit\<close> listener over the stream names, started with
  \<open>alreadyCalledChannelCodes = []\<close>. It returns the calls made, in order, and the
  exception that ended the loop early, if any.
\<close>

fun endRealtime_loop ::
  "OutputHandlerConfigurations \<Rightarrow> int option \<Rightarrow> OutputHandlerCode list \<Rightarrow> OutputChannels
    \<Rightarrow> realtime_call list \<times> executor_exception option" where
  "endRealtime_loop cfg exitCode alreadyCalledChannelCodes [] = ([], None)"
| "endRealtime_loop cfg exitCode alreadyCalledChannelCodes ((outputStreamName, outputChannel) # rest) =
    (case outputChannel of
      None \<Rightarrow> ([], Some (Exception ''Output channel is undefined.''))
    | Some channel \<Rightarrow>
        (let outputChannelCode = handler (cfg outputStreamName) in
          if outputChannelCode \<notin> set alreadyCalledChannelCodes then
            (let later = endRealtime_loop cfg exitCode (alreadyCalledChannelCodes @ [outputChannelCode]) rest
             in (EndRealtime channel exitCode # fst later, snd later))
          else endRealtime_loop cfg exitCode alreadyCalledChannelCodes rest))"

definition handleRealtimeOutput_onExit ::
  "OutputHandlerConfigurations \<Rightarrow> OutputChannels \<Rightarrow> int option
    \<Rightarrow> realtime_call list \<times> executor_exception option" where
  "handleRealtimeOutput_onExit cfg outputChannels exitCode =
    endRealtime_loop cfg exitCode [] outputChannels"

text \<open>
  Every stream of \<open>outputChannels\<close> holds a channel; and the channels are shared exactly
  as the handler codes are: two streams hold the same channel object if and only if
  they are configured with the same handler code.
\<close>

definition all_defined :: "OutputChannels \<Rightarrow> bool" where
  "all_defined chans = list_all (\<lambda>p. snd p \<noteq> None) chans"

definition one_channel_per_code :: "OutputHandlerConfigurations \<Rightarrow> OutputChannels \<Rightarrow> bool" where
  "one_channel_per_code cfg chans =
    list_all (\<lambda>p. list_all (\<lambda>q.
      (handler (cfg (fst p)) = handler (cfg (fst q))) = (snd p = snd q)) chans) chans"

text \<open>
  The listener \<open>handleNewOutputContent(outputStreamName, readableStream)\<close> of the
  \<open>readable\<close> events, as the events of one call in their order: the calls of \<open>pause()\<close>
  and \<open>resume()\<close> on the two streams of the child process, the \<open>read()\<close>, the call of
  \<open>handleRealtime\<close> on the stream's channel and the moment its promise resolves, on which
  the listener waits. \<open>handling\<close> tells how that promise ends.
\<close>

datatype chunk_event =
    Pause OutputStream
  | ReadChunk OutputStream
  | CallHandleRealtime OutputChannel OutputStream string
  | HandleRealtimeResolved
  | Resume OutputStream

definition channel_of :: "OutputChannels \<Rightarrow> OutputStream \<Rightarrow> OutputChannel option" where
  "channel_of outputChannels outputStreamName =
    (case map_of outputChannels outputStreamName of None \<Rightarrow> None | Some channel \<Rightarrow> channel)"

definition handleNewOutputContent ::
  "child_process \<Rightarrow> OutputChannels \<Rightarrow> unit promise \<Rightarrow> OutputStream \<Rightarrow> readable
    \<Rightarrow> chunk_event list \<times> executor_exception option" where
  "handleNewOutputContent childProcess outputChannels handling outputStreamName readableStream =
    (if stdout childProcess = None \<or> stderr childProcess = None then
       ([], Some (Exception ''Child process's stdout and/or stderr stream is null.''))
     else
       (let outputContent = or_empty (read readableStream) in
         case channel_of outputChannels outputStreamName of
           None \<Rightarrow>
             ([Pause Stdout, Pause Stderr, ReadChunk outputStreamName],
              Some (Exception ''Output channel is undefined.''))
         | Some outputChannel \<Rightarrow>
             (case handling of
               Resolves done \<Rightarrow>
                 ([Pause Stdout, Pause Stderr, ReadChunk outputStreamName,
                   CallHandleRealtime outputChannel outputStreamName outputContent,
                   HandleRealtimeResolved, Resume Stdout, Resume Stderr], None)
             | Rejects message \<Rightarrow>
                 ([Pause Stdout, Pause Stderr, ReadChunk outputStreamName,
                   CallHandleRealtime outputChannel outputStreamName outputContent],
                  Some (Exception message))
             | NeverSettles \<Rightarrow>
                 ([Pause Stdout, Pause Stderr, ReadChunk outputStreamName,
                   CallHandleRealtime outputChannel outputStreamName outputContent], None))))"

subsection \<open>The working directory\<close>

text \<open>
  \<open>ShellCommandExecutor.getWorkingDirectory(plugin)\<close>, the directory the executor
  validates and spawns in. \<open>vaultAbsolutePath\<close> is \<open>getVaultAbsolutePath(plugin.app)\<close> and
  \<open>working_directory\<close> is the setting \<open>plugin.settings.working_directory\<close>.
\<close>

definition ShellCommandExecutor_getWorkingDirectory ::
  "path_module \<Rightarrow> string \<Rightarrow> string \<Rightarrow> string" where
  "ShellCommandExecutor_getWorkingDirectory path vaultAbsolutePath working_directory =
    (if length working_directory = 0 then vaultAbsolutePath
     else if \<not> isAbsolute path working_directory then
       join path vaultAbsolutePath working_directory
     else working_directory)"

text \<open>
  \<open>Shell.getWorkingDirectory()\<close>, documented as returning the working directory
  "translated to the format expected by this Shell". \<open>translateAbsolutePath\<close> is the
  abstract method of the shell.
\<close>

definition Shell_getWorkingDirectory ::
  "path_module \<Rightarrow> (string \<Rightarrow> string) \<Rightarrow> string \<Rightarrow> string \<Rightarrow> string" where
  "Shell_getWorkingDirectory path translateAbsolutePath vaultAbsolutePath workingDirectory =
    (if length workingDirectory = 0 then translateAbsolutePath vaultAbsolutePath
     else if \<not> isAbsolute path workingDirectory then
       translateAbsolutePath (join path vaultAbsolutePath workingDirectory)
     else workingDirectory)"

text \<open>
  An example of a shell's \<open>translateAbsolutePath\<close>, after the method's documentation: in
  a shell of the Windows Subsystem for Linux "a Windows path like
  \<open>C:\MyVault\MyNote.md\<close> should be converted to \<open>/mnt/c/MyVault/MyNote.md\<close>". Both
  directory separators become slashes, and a drive prefix becomes \<open>/mnt/\<close> and the
  lower-case drive letter.
\<close>

definition to_slash :: "char \<Rightarrow> char" where
  "to_slash c = (if c = CHR 0x5C then CHR ''/'' else c)"

definition wsl_translateAbsolutePath :: "string \<Rightarrow> string" where
  "wsl_translateAbsolutePath originalPath =
    (case originalPath of
      drive # colon # rest \<Rightarrow>
        (if isWindowsDeviceRoot drive \<and> colon = CHR '':'' then
           ''/mnt/'' @ [ascii_lower drive] @ map to_slash rest
         else map to_slash originalPath)
    | _ \<Rightarrow> map to_slash originalPath)"

subsection \<open>\<open>ShellCommandExecutor.executeShellCommand\<close>\<close>

text \<open>
  The resolved bundle handed to the execution. The property \<open>alias\<close> is \<open>alias_text\<close>
  here, and the two fields shared with a \<open>ParsingResult\<close> carry the prefix \<open>sc\<close>.
\<close>

record ShellCommandParsingResult =
  unwrappedShellCommandContent :: string
  wrappedShellCommandContent :: string
  alias_text :: string
  environment_variable_path_augmentation :: string
  stdinContent :: "string option"
  output_wrapper_stdout :: "string option"
  output_wrapper_stderr :: "string option"
  sc_succeeded :: bool
  sc_error_messages :: "string list"

datatype OutputHandlingMode = Buffered | Realtime

datatype ExecutionNotificationMode = Disabled | Quick | Permanent | IfLong

text \<open>
  What \<open>shell.spawnChildProcess\<close> does: it throws an exception with a message, it returns
  \<open>null\<close> (no \<open>spawn()\<close> call was made, for a configuration error of the shell), or it
  returns the child process.
\<close>

datatype spawn_result = SpawnThrows string | SpawnNull | Spawned child_process

type_synonym PlatformId = string

text \<open>
  Everything the executor reads from its collaborators: the host's \<open>path\<close> module, the
  settings, the vault's path, the file system (\<open>fs.existsSync\<close>, and
  \<open>fs.lstatSync(p).isDirectory()\<close>), the shell command (\<open>getNonEmptyPlatformIds\<close>,
  \<open>getOutputHandlers\<close>, \<open>getOutputHandlingMode\<close>), the platform names of \<open>Common\<close>, and
  the shell (whether it has \<open>setEnvironmentVariablePathAugmentation\<close>, and
  \<open>spawnChildProcess\<close> on a command and a working directory).
\<close>

record executor_env =
  path :: path_module
  working_directory :: string
  execution_notification_mode :: ExecutionNotificationMode
  vaultAbsolutePath :: string
  existsSync :: "string \<Rightarrow> bool"
  lstat_isDirectory :: "string \<Rightarrow> bool"
  nonEmptyPlatformIds :: "PlatformId list"
  outputHandlers :: OutputHandlerConfigurations
  outputHandlingMode :: OutputHandlingMode
  currentPlatformName :: string
  platformName :: "PlatformId \<Rightarrow> string"
  shellSupportsPathAugmentation :: bool
  spawnChildProcess :: "string \<Rightarrow> string \<Rightarrow> spawn_result"

text \<open>
  The effects of an execution, in the order they happen: error notices
  (\<open>plugin.newError\<close>), the calls on the parsing process, the confirmation modal and the
  preactions, the calls on the shell and on the child process, the attachment of the
  output handling with the handler configurations in force, and the execution
  notification. A rejection that no handler takes is recorded last. Debug log lines are
  not recorded.
\<close>

datatype effect =
    NewError string
  | CreateParsingProcess
  | Process
  | DisplayErrorMessages
  | OpenConfirmationModal
  | PerformPreaction nat
  | ProcessRest
  | SetEnvironmentVariablePathAugmentation string
  | CallSpawnChildProcess string string
  | StdinWrite string
  | StdinEnd
  | OnError
  | SetEncoding OutputStream
  | HandleBufferedOutput child_process "OutputHandlerCode \<times> OutputHandlerCode"
  | HandleRealtimeOutput child_process "OutputHandlerCode \<times> OutputHandlerCode"
  | ShowExecutionNotification string ExecutionNotificationMode
  | UnhandledRejection string

definition getErrorMessageForEmptyShellCommand :: "executor_env \<Rightarrow> string" where
  "getErrorMessageForEmptyShellCommand env =
    (if length (nonEmptyPlatformIds env) > 0 then
       (let current_platform_name = currentPlatformName env;
            version_word = (if length (nonEmptyPlatformIds env) > 1 then ''versions'' else ''a version'');
            other_platform_names = join_strings '' and '' (map (platformName env) (nonEmptyPlatformIds env))
        in ''The shell command does not have a version for '' @ current_platform_name @
           '', it only has '' @ version_word @ '' for '' @ other_platform_names @ ''.'')
     else ''The shell command is empty. :('')"

text \<open>
  The output handlers in force: with a (truthy, that is non-empty) overriding output
  channel both streams use it, otherwise the shell command's own handlers.
\<close>

definition effective_outputHandlers ::
  "executor_env \<Rightarrow> OutputHandlerCode option \<Rightarrow> OutputHandlerConfigurations" where
  "effective_outputHandlers env overriding_output_channel =
    (case overriding_output_channel of
      None \<Rightarrow> outputHandlers env
    | Some code \<Rightarrow>
        (if code = [] then outputHandlers env
         else (\<lambda>s. (outputHandlers env s)\<lparr>handler := code\<rparr>)))"

text \<open>
  The body of the \<open>try\<close> block: the effects up to its end or up to the exception thrown
  in it.
\<close>

definition spawn_and_attach ::
  "executor_env \<Rightarrow> ShellCommandParsingResult \<Rightarrow> OutputHandlerConfigurations \<Rightarrow> string
    \<Rightarrow> effect list \<times> executor_exception option" where
  "spawn_and_attach env r handlers dir =
    (case spawnChildProcess env (wrappedShellCommandContent r) dir of
      SpawnThrows message \<Rightarrow>
        ([CallSpawnChildProcess (wrappedShellCommandContent r) dir], Some (Exception message))
    | SpawnNull \<Rightarrow> ([CallSpawnChildProcess (wrappedShellCommandContent r) dir], None)
    | Spawned cp \<Rightarrow>
        (let spawned = [CallSpawnChildProcess (wrappedShellCommandContent r) dir];
             codes = (handler (handlers Stdout), handler (handlers Stderr))
         in
          if stdinContent r \<noteq> None \<and> stdin cp = None then
            (spawned, Some (Exception
              ''Shell command execution process does not have a standard input stream (stdin).''))
          else
            (let written = (case stdinContent r of
                              None \<Rightarrow> []
                            | Some content \<Rightarrow> [StdinWrite content, StdinEnd])
             in
              if stdout cp = None \<or> stderr cp = None then
                (spawned @ written @ [OnError],
                 Some (Exception ''Child process's stdout and/or stderr stream is null.''))
              else
                (spawned @ written @ [OnError, SetEncoding Stdout, SetEncoding Stderr] @
                 (case outputHandlingMode env of
                    Buffered \<Rightarrow> [HandleBufferedOutput cp codes]
                  | Realtime \<Rightarrow> [HandleRealtimeOutput cp codes]) @
                 (if execution_notification_mode env \<noteq> Disabled then
                    [ShowExecutionNotification (unwrappedShellCommandContent r)
                       (execution_notification_mode env)]
                  else []),
                 None))))"

text \<open>
  \<open>executeShellCommand(shell_command_parsing_result, overriding_output_channel)\<close>: its
  effects, and the exception it ends with when the \<open>catch\<close> clause throws it again.
\<close>

definition executeShellCommand ::
  "executor_env \<Rightarrow> ShellCommandParsingResult \<Rightarrow> OutputHandlerCode option
    \<Rightarrow> effect list \<times> executor_exception option" where
  "executeShellCommand env r overriding_output_channel =
    (let dir = ShellCommandExecutor_getWorkingDirectory (path env) (vaultAbsolutePath env)
                 (working_directory env);
         handlers = effective_outputHandlers env overriding_output_channel
     in
      if length (trim (unwrappedShellCommandContent r)) = 0 then
        ([NewError (getErrorMessageForEmptyShellCommand env)], None)
      else if \<not> existsSync env dir then
        ([NewError (''Working directory does not exist: '' @ dir)], None)
      else if \<not> lstat_isDirectory env dir then
        ([NewError (''Working directory exists but is not a folder: '' @ dir)], None)
      else
        (let augmented =
               (if length (environment_variable_path_augmentation r) > 0
                   \<and> shellSupportsPathAugmentation env
                then [SetEnvironmentVariablePathAugmentation
                        (environment_variable_path_augmentation r)]
                else [])
         in
          (case spawn_and_attach env r handlers dir of
            (effects, None) \<Rightarrow> (augmented @ effects, None)
          | (effects, Some (Exception message)) \<Rightarrow>
              (if matches_spawn_ENAMETOOLONG message then
                 (augmented @ effects @
                  [NewError (''Shell command execution failed because it's too long: '' @
                     String_nat (length (wrappedShellCommandContent r)) @
                     '' characters. (Unfortunately the max limit is unknown).'')],
                  None)
               else (augmented @ effects, Some (Exception message))))))"

text \<open>A child process is created only by a call of \<open>shell.spawnChildProcess\<close>.\<close>

fun is_spawn :: "effect \<Rightarrow> bool" where
  "is_spawn (CallSpawnChildProcess command dir) = True"
| "is_spawn _ = False"

subsection \<open>An example environment\<close>

text \<open>
  A Linux host whose vault is the directory \<open>/home/me/vault\<close>, holding the file
  \<open>todo.md\<close>; the shell spawns a child process with all three streams.
\<close>

definition example_child :: child_process where
  "example_child =
    \<lparr>stdin = Some Writable, stdout = Some (Readable None), stderr = Some (Readable None)\<rparr>"

definition example_platformName :: "PlatformId \<Rightarrow> string" where
  "example_platformName platform_id =
    (if platform_id = ''darwin'' then ''macOS''
     else if platform_id = ''linux'' then ''Linux''
     else if platform_id = ''win32'' then ''Windows''
     else platform_id)"

definition example_env :: executor_env where
  "example_env =
    \<lparr>path = posix,
     working_directory = [],
     execution_notification_mode = Disabled,
     vaultAbsolutePath = ''/home/me/vault'',
     existsSync = (\<lambda>p. p \<in> set [''/home/me/vault'', ''/home/me/vault/todo.md'']),
     lstat_isDirectory = (\<lambda>p. p = ''/home/me/vault''),
     nonEmptyPlatformIds = [],
     outputHandlers = (\<lambda>s. \<lparr>handler = ''notification''\<rparr>),
     outputHandlingMode = Buffered,
     currentPlatformName = ''Linux'',
     platformName = example_platformName,
     shellSupportsPathAugmentation = True,
     spawnChildProcess = (\<lambda>command dir. Spawned example_child)\<rparr>"

definition example_result :: "string \<Rightarrow> ShellCommandParsingResult" where
  "example_result command =
    \<lparr>unwrappedShellCommandContent = command,
     wrappedShellCommandContent = command,
     alias_text = [],
     environment_variable_path_augmentation = [],
     stdinContent = None,
     output_wrapper_stdout = None,
     output_wrapper_stderr = None,
     sc_succeeded = True,
     sc_error_messages = []\<rparr>"

subsection \<open>\<open>ShellCommandExecutor.doPreactionsAndExecuteShellCommand\<close>\<close>

text \<open>
  The \<open>parsed_content\<close> of the fields of \<open>parsing_process.getParsingResults()\<close> that the
  executor reads: three are cast to strings, four may be absent.
\<close>

record parsing_results =
  shellCommandContent :: string
  shellCommandWrapper :: "string option"
  alias_content :: string
  path_augmentation_content :: string
  stdin_content :: "string option"
  wrapper_stdout_content :: "string option"
  wrapper_stderr_content :: "string option"

text \<open>
  The collaborators of one run: the environment of the execution itself; whether the
  shell command asks for a confirmation, and how the promise of the confirmation modal
  ends (it resolves to whether the user confirmed); how the promise of each preaction's
  \<open>perform\<close> ends, in the order of \<open>getPreactions()\<close>; what \<open>process()\<close> and
  \<open>processRest()\<close> of the parsing process answer and what it has parsed;
  \<open>TShellCommand.wrapShellCommandContent\<close> on the unwrapped content and the wrapper.
\<close>

record pipeline_env =
  execution :: executor_env
  confirm_execution :: bool
  confirmation_modal :: "bool promise"
  preactions :: "bool promise list"
  process_succeeds :: bool
  processRest_succeeds :: bool
  getParsingResults :: parsing_results
  wrapShellCommandContent :: "string \<Rightarrow> string \<Rightarrow> string"

text \<open>
  The promise the confirmation step returns is resolved, with \<open>true\<close>, only inside
  \<open>if (execution_confirmed)\<close>: when the user declines, or the modal's promise does not
  resolve, it never settles. \<open>confirmation_modal.promise.then(...)\<close> is given no
  handler for a rejection: when the modal's promise rejects, the promise of that \<open>then\<close>
  rejects and nothing handles it.
\<close>

definition confirmation_step :: "bool promise \<Rightarrow> effect list \<times> bool promise" where
  "confirmation_step modal =
    (case modal of
      Resolves execution_confirmed \<Rightarrow>
        (if execution_confirmed then
           (if execution_confirmed then ([], Resolves True) else ([], Resolves False))
         else ([], NeverSettles))
    | Rejects message \<Rightarrow> ([UnhandledRejection message], NeverSettles)
    | NeverSettles \<Rightarrow> ([], NeverSettles))"

text \<open>
  \<open>preaction_pipeline = preaction_pipeline.then(() => step)\<close>, once per preaction: the
  callback takes no argument, so the step runs whenever the pipeline so far has
  resolved, whatever the value, and the pipeline then ends as the step does.
  \<open>add_preactions i pipeline steps\<close> gives the effects and the end of the pipeline
  extended by \<open>steps\<close>, the first of which is preaction number \<open>i\<close>.
\<close>

fun add_preactions :: "nat \<Rightarrow> bool promise \<Rightarrow> bool promise list \<Rightarrow> effect list \<times> bool promise" where
  "add_preactions i preaction_pipeline [] = ([], preaction_pipeline)"
| "add_preactions i preaction_pipeline (perform # rest) =
    (case preaction_pipeline of
      Resolves previous \<Rightarrow>
        (let later = add_preactions (Suc i) perform rest
         in (PerformPreaction i # fst later, snd later))
    | Rejects message \<Rightarrow> ([], Rejects message)
    | NeverSettles \<Rightarrow> ([], NeverSettles))"

text \<open>The bundle built from the parsing results once \<open>processRest()\<close> has succeeded.\<close>

definition shell_command_parsing_result :: "pipeline_env \<Rightarrow> ShellCommandParsingResult" where
  "shell_command_parsing_result env =
    (let parsing_results = getParsingResults env;
         unwrapped = shellCommandContent parsing_results
     in \<lparr>unwrappedShellCommandContent = unwrapped,
         wrappedShellCommandContent =
           (case shellCommandWrapper parsing_results of
             None \<Rightarrow> unwrapped
           | Some wrapper \<Rightarrow>
               (if wrapper \<noteq> [] then wrapShellCommandContent env unwrapped wrapper
                else unwrapped)),
         alias_text = alias_content parsing_results,
         environment_variable_path_augmentation = path_augmentation_content parsing_results,
         stdinContent = stdin_content parsing_results,
         output_wrapper_stdout = wrapper_stdout_content parsing_results,
         output_wrapper_stderr = wrapper_stderr_content parsing_results,
         sc_succeeded = True,
         sc_error_messages = []\<rparr>)"

text \<open>
  The last callback, \<open>preaction_pipeline.then(async (can_execute) => ...)\<close>. An
  exception of \<open>executeShellCommand\<close> rejects the promise of the callback, and a rejected
  pipeline is passed on; nothing handles either.
\<close>

definition after_preactions ::
  "pipeline_env \<Rightarrow> OutputHandlerCode option \<Rightarrow> bool promise \<Rightarrow> effect list" where
  "after_preactions env overriding_output_channel preaction_pipeline =
    (case preaction_pipeline of
      Resolves can_execute \<Rightarrow>
        (if can_execute then
           (if processRest_succeeds env then
              (case executeShellCommand (execution env) (shell_command_parsing_result env)
                      overriding_output_channel of
                (effects, None) \<Rightarrow> ProcessRest # effects
              | (effects, Some (Exception message)) \<Rightarrow>
                  ProcessRest # effects @ [UnhandledRejection message])
            else [ProcessRest, DisplayErrorMessages])
         else [])
    | Rejects message \<Rightarrow> [UnhandledRejection message]
    | NeverSettles \<Rightarrow> [])"

text \<open>
  The pipeline from \<open>Promise.resolve(true)\<close> on: the confirmation, when configured, then
  the preactions, then the last callback.
\<close>

definition run_pipeline :: "pipeline_env \<Rightarrow> OutputHandlerCode option \<Rightarrow> effect list" where
  "run_pipeline env overriding_output_channel =
    (let confirmed =
           (if confirm_execution env
            then (OpenConfirmationModal # fst (confirmation_step (confirmation_modal env)),
                  snd (confirmation_step (confirmation_modal env)))
            else ([], Resolves True));
         performed = add_preactions 0 (snd confirmed) (preactions env)
     in fst confirmed @ fst performed @
        after_preactions env overriding_output_channel (snd performed))"

text \<open>
  \<open>doPreactionsAndExecuteShellCommand(parsing_process, overriding_output_channel)\<close>;
  \<open>has_parsing_process\<close> tells whether the caller passed a parsing process.
\<close>

definition doPreactionsAndExecuteShellCommand ::
  "pipeline_env \<Rightarrow> bool \<Rightarrow> OutputHandlerCode option \<Rightarrow> effect list" where
  "doPreactionsAndExecuteShellCommand env has_parsing_process overriding_output_channel =
    (if \<not> has_parsing_process then
       (if \<not> process_succeeds env then [CreateParsingProcess, Process, DisplayErrorMessages]
        else [CreateParsingProcess, Process] @ run_pipeline env overriding_output_channel)
     else run_pipeline env overriding_output_channel)"

subsection \<open>An example run with two preactions\<close>

text \<open>
  The command \<open>ls\<close> in the example environment, with no confirmation and two
  preactions: the user cancels the first, whose promise resolves to \<open>false\<close>, and the
  second resolves to \<open>true\<close>.
\<close>

definition example_pipeline :: pipeline_env where
  "example_pipeline =
    \<lparr>execution = example_env,
     confirm_execution = False,
     confirmation_modal = NeverSettles,
     preactions = [Resolves False, Resolves True],
     process_succeeds = True,
     processRest_succeeds = True,
     getParsingResults =
       \<lparr>shellCommandContent = ''ls'', shellCommandWrapper = None, alias_content = [],
        path_augmentation_content = [], stdin_content = None,
        wrapper_stdout_content = None, wrapper_stderr_content = None\<rparr>,
     wrapShellCommandContent = (\<lambda>content wrapper. content)\<rparr>"

subsection \<open>Objects used as dictionaries\<close>

text \<open>
  The two plugin classes keep what the command palette has parsed in an object that
  is created by \<open>{}\<close>, written by \<open>object[id] = value\<close> and read by \<open>object[id]\<close>. Such
  an object inherits from \<open>Object.prototype\<close>. Reading a name that is no own property
  gives the inherited property of that name where there is one, a function or an
  object, and \<open>undefined\<close> otherwise. An assignment to the name \<open>__proto__\<close> stores no
  own property: it makes an object the prototype, and does nothing with \<open>undefined\<close>.
  With a stored object as the prototype, \<open>__proto__\<close> reads as that object and every
  other name that is no own property reads as the property of that object.

  What a read finds: \<open>undefined\<close>; a value of the kind that is stored; or a value of
  another kind, which is not \<open>undefined\<close>.
\<close>

definition Object_prototype_properties :: "string list" where
  "Object_prototype_properties =
    [''constructor'', ''hasOwnProperty'', ''isPrototypeOf'', ''propertyIsEnumerable'',
     ''toLocaleString'', ''toString'', ''valueOf'', ''__defineGetter__'',
     ''__defineSetter__'', ''__lookupGetter__'', ''__lookupSetter__'']"

datatype 'v looked_up = Undefined | Stored 'v | Other

record 'v dictionary =
  own_properties :: "string \<rightharpoonup> 'v option"
  prototype :: "'v option"

definition empty_object :: "'v dictionary" where
  "empty_object = \<lparr>own_properties = Map.empty, prototype = None\<rparr>"

definition assign :: "'v dictionary \<Rightarrow> string \<Rightarrow> 'v option \<Rightarrow> 'v dictionary" where
  "assign object name v =
    (if name = ''__proto__'' then
       (case v of
         None \<Rightarrow> object
       | Some stored \<Rightarrow> object\<lparr>prototype := Some stored\<rparr>)
     else object\<lparr>own_properties := (own_properties object)(name \<mapsto> v)\<rparr>)"

text \<open>
  \<open>object[name]\<close>; \<open>property stored name\<close> is what the name reads as on a stored object.
\<close>

definition lookup ::
  "('v \<Rightarrow> string \<Rightarrow> 'v looked_up) \<Rightarrow> 'v dictionary \<Rightarrow> string \<Rightarrow> 'v looked_up" where
  "lookup property object name =
    (case own_properties object name of
      Some None \<Rightarrow> Undefined
    | Some (Some v) \<Rightarrow> Stored v
    | None \<Rightarrow>
        (case prototype object of
          None \<Rightarrow>
            if name = ''__proto__'' \<or> name \<in> set Object_prototype_properties then Other
            else Undefined
        | Some stored \<Rightarrow> if name = ''__proto__'' then Stored stored else property stored name))"

subsection \<open>The plugin: commands of the command palette\<close>

text \<open>
  \<open>SC_Plugin.registerShellCommand\<close> gives Obsidian a \<open>checkCallback\<close> for the shell
  command. The plugin-wide \<open>cached_parsing_processes\<close> is an object keyed by shell
  command ID. A parsing process is a value of any type \<open>'p\<close>; the shell command creates
  one (\<open>createParsingProcess(null)\<close>), and \<open>process()\<close> answers whether parsing
  succeeded, or throws. \<open>property_of_parsing_process p name\<close> is what \<open>p[name]\<close> is to
  the closure \<open>executor\<close>: \<open>Undefined\<close> for a value that counts as false, \<open>Stored\<close> for
  a parsing process, \<open>Other\<close> for any other value, which has no method \<open>process\<close>.
\<close>

record 'p plugin_state =
  cached_parsing_processes :: "'p dictionary"

record 'p palette_env =
  shell_command_id :: string
  canShowInCommandPalette :: bool
  preview_variables_in_command_palette :: bool
  createParsingProcess :: 'p
  process :: "'p \<Rightarrow> executor_exception + bool"
  property_of_parsing_process :: "'p \<Rightarrow> string \<Rightarrow> 'p looked_up"

datatype 'p palette_effect =
    RenameObsidianCommandParsed 'p
  | RenameObsidianCommandUnparsed
  | ExecutorDoPreactionsAndExecuteShellCommand 'p
  | DisplayErrorMessagesOf 'p

text \<open>
  The closure \<open>executor\<close>, called with \<open>cached_parsing_processes[id]\<close>: its effects, and
  the exception it throws, if any. \<open>doPreactionsAndExecuteShellCommand\<close> is an \<open>async\<close>
  method, and so the call of it returns a promise and throws nothing. A value that is
  no parsing process has no method \<open>process\<close>, and calling it is a \<open>TypeError\<close>.
\<close>

definition executor ::
  "'p palette_env \<Rightarrow> 'p looked_up \<Rightarrow> 'p palette_effect list \<times> executor_exception option" where
  "executor env parsing_process =
    (case parsing_process of
      Other \<Rightarrow> ([], Some (Exception ''TypeError: parsing_process.process is not a function''))
    | _ \<Rightarrow>
        (let parsing_process' = (case parsing_process of
                                   Stored p \<Rightarrow> p
                                 | _ \<Rightarrow> createParsingProcess env)
         in case process env parsing_process' of
              Inl exception \<Rightarrow> ([], Some exception)
            | Inr succeeded \<Rightarrow>
                if succeeded
                then ([ExecutorDoPreactionsAndExecuteShellCommand parsing_process'], None)
                else ([DisplayErrorMessagesOf parsing_process'], None)))"

text \<open>
  \<open>checkCallback(is_opening_command_palette)\<close>: the new state of the plugin, the
  effects, the value returned (\<open>None\<close> where the callback returns nothing), and the
  exception that leaves the callback, if any. An exception ends the callback where it
  is thrown: the statements after the throwing call are not reached.
\<close>

definition checkCallback ::
  "'p palette_env \<Rightarrow> 'p plugin_state \<Rightarrow> bool
    \<Rightarrow> 'p plugin_state \<times> 'p palette_effect list \<times> bool option \<times> executor_exception option" where
  "checkCallback env plugin is_opening_command_palette =
    (if is_opening_command_palette then
       (if \<not> canShowInCommandPalette env then (plugin, [], Some False, None)
        else
          (let unparsed =
                 (plugin\<lparr>cached_parsing_processes :=
                     assign (cached_parsing_processes plugin) (shell_command_id env) None\<rparr>,
                  [RenameObsidianCommandUnparsed], Some True, None)
           in if preview_variables_in_command_palette env then
                (case process env (createParsingProcess env) of
                  Inl exception \<Rightarrow> (plugin, [], None, Some exception)
                | Inr succeeded \<Rightarrow>
                    if succeeded then
                      (plugin\<lparr>cached_parsing_processes :=
                          assign (cached_parsing_processes plugin) (shell_command_id env)
                            (Some (createParsingProcess env))\<rparr>,
                       [RenameObsidianCommandParsed (createParsingProcess env)], Some True, None)
                    else unparsed)
              else unparsed))
     else
       (case executor env
               (lookup (property_of_parsing_process env) (cached_parsing_processes plugin)
                  (shell_command_id env)) of
         (effects, Some exception) \<Rightarrow> (plugin, effects, None, Some exception)
       | (effects, None) \<Rightarrow>
           (plugin\<lparr>cached_parsing_processes := empty_object\<rparr>, effects, None, None)))"

text \<open>
  The first plugin class, \<open>ShellCommandsPlugin\<close>, kept preparsed configurations instead:
  \<open>preparsed_shell_command_configurations\<close>, keyed by command ID.
  \<open>parseShellCommandVariables\<close> gives the parsed text, or \<open>null\<close> when parsing fails; its
  second argument tells it whether to show notices for the errors. Node's \<open>exec\<close>
  starts the command and reports most failures to its callback, later; some it throws
  at once, and \<open>exec_throws\<close> tells for which command lines it does so here.
\<close>

record ShellCommandConfiguration =
  shell_command :: string
  alias_name :: string

record legacy_plugin_state =
  preparsed_shell_command_configurations :: "ShellCommandConfiguration dictionary"

record legacy_env =
  command_id :: string
  shell_command_configuration :: ShellCommandConfiguration
  legacy_preview_variables_in_command_palette :: bool
  parseShellCommandVariables :: "string \<Rightarrow> bool \<Rightarrow> string option"
  exec_throws :: "string \<Rightarrow> executor_exception option"

datatype legacy_effect =
    SetObsidianCommandName string
  | ExecuteShellCommand "string option"

definition generateObsidianCommandName :: "ShellCommandConfiguration \<Rightarrow> string" where
  "generateObsidianCommandName configuration =
    (if alias_name configuration \<noteq> [] then ''Execute: '' @ alias_name configuration
     else ''Execute: '' @ shell_command configuration)"

text \<open>
  A preparsed configuration has the properties \<open>shell_command\<close> and \<open>alias\<close>, which
  hold strings, and those it inherits.
\<close>

definition property_of_configuration ::
  "ShellCommandConfiguration \<Rightarrow> string \<Rightarrow> ShellCommandConfiguration looked_up" where
  "property_of_configuration configuration name =
    (if name \<in> set ([''shell_command'', ''alias''] @ Object_prototype_properties) then Other
     else Undefined)"

text \<open>
  \<open>ShellCommandsPlugin.executeShellCommand(shell_command)\<close>, up to the return of
  \<open>exec\<close>: the call, and the exception it throws at once, if any. The argument is
  \<open>None\<close> for \<open>undefined\<close>, which \<open>exec\<close> refuses with a \<open>TypeError\<close>.
\<close>

definition legacy_executeShellCommand ::
  "legacy_env \<Rightarrow> string option \<Rightarrow> legacy_effect list \<times> executor_exception option" where
  "legacy_executeShellCommand env command =
    ([ExecuteShellCommand command],
     (case command of
       None \<Rightarrow> Some (Exception ''TypeError [ERR_INVALID_ARG_TYPE]'')
     | Some command_line \<Rightarrow> exec_throws env command_line))"

text \<open>
  The \<open>checkCallback\<close> of the first plugin class. What is found under the command ID and
  is neither \<open>undefined\<close> nor a preparsed configuration has no \<open>shell_command\<close>, and
  \<open>undefined\<close> is executed.
\<close>

definition legacy_checkCallback ::
  "legacy_env \<Rightarrow> legacy_plugin_state \<Rightarrow> bool
    \<Rightarrow> legacy_plugin_state \<times> legacy_effect list \<times> bool option \<times> executor_exception option" where
  "legacy_checkCallback env plugin is_opening_command_palette =
    (if is_opening_command_palette then
       (if legacy_preview_variables_in_command_palette env then
          (case parseShellCommandVariables env (shell_command (shell_command_configuration env)) False of
            None \<Rightarrow> (plugin, [], Some True, None)
          | Some parsed_shell_command \<Rightarrow>
              (case parseShellCommandVariables env (alias_name (shell_command_configuration env)) False of
                None \<Rightarrow> (plugin, [], Some True, None)
              | Some parsed_alias \<Rightarrow>
                  (let preparsed = \<lparr>shell_command = parsed_shell_command,
                                    alias_name = parsed_alias\<rparr>
                   in (plugin\<lparr>preparsed_shell_command_configurations :=
                          assign (preparsed_shell_command_configurations plugin)
                            (command_id env) (Some preparsed)\<rparr>,
                       [SetObsidianCommandName
                          (''Shell commands: '' @ generateObsidianCommandName preparsed)],
                       Some True, None))))
        else (plugin, [], Some True, None))
     else
       (case (case lookup property_of_configuration
                     (preparsed_shell_command_configurations plugin) (command_id env) of
               Undefined \<Rightarrow>
                 (case parseShellCommandVariables env
                         (shell_command (shell_command_configuration env)) True of
                   None \<Rightarrow> ([], None)
                 | Some parsed_shell_command \<Rightarrow>
                     legacy_executeShellCommand env (Some parsed_shell_command))
             | Stored preparsed \<Rightarrow>
                 legacy_executeShellCommand env (Some (shell_command preparsed))
             | Other \<Rightarrow> legacy_executeShellCommand env None) of
         (effects, Some exception) \<Rightarrow> (plugin, effects, None, Some exception)
       | (effects, None) \<Rightarrow>
           (plugin\<lparr>preparsed_shell_command_configurations := empty_object\<rparr>,
            effects, None, None)))"

subsection \<open>An example: a cache filled by the command palette\<close>

text \<open>
  Two shell commands of the first plugin class, \<open>0\<close> and \<open>1\<close>, whose variables the
  command palette has parsed on opening. The variable \<open>{{clipboard}}\<close> of the shell
  command \<open>1\<close> stands for sixty letters. \<open>exec\<close> throws at once when the operating
  system refuses the arguments of the new process for their size (\<open>spawn E2BIG\<close>); to
  keep the example small the limit is taken to be forty characters.
\<close>

definition example_legacy_env :: "string \<Rightarrow> string \<Rightarrow> legacy_env" where
  "example_legacy_env key command =
    \<lparr>command_id = key,
     shell_command_configuration = \<lparr>shell_command = command, alias_name = []\<rparr>,
     legacy_preview_variables_in_command_palette = True,
     parseShellCommandVariables = (\<lambda>content notices.
       if content = ''echo {{clipboard}}'' then Some (''echo '' @ replicate 60 (CHR ''a''))
       else Some content),
     exec_throws = (\<lambda>command_line.
       if length command_line > 40 then Some (Exception ''spawn E2BIG'') else None)\<rparr>"

definition example_legacy_plugin :: legacy_plugin_state where
  "example_legacy_plugin =
    fst (legacy_checkCallback (example_legacy_env ''1'' ''echo {{clipboard}}'')
      (fst (legacy_checkCallback (example_legacy_env ''0'' ''ls'')
         \<lparr>preparsed_shell_command_configurations = empty_object\<rparr> True)) True)"

text \<open>
  Shell commands of the second plugin class, and a cache that holds the parsing process
  of the shell command \<open>0\<close>. Parsing processes are named by strings here, parsing
  succeeds and a parsing process has no property of its own.
\<close>

definition example_palette_env :: "string \<Rightarrow> string palette_env" where
  "example_palette_env key =
    \<lparr>shell_command_id = key,
     canShowInCommandPalette = True,
     preview_variables_in_command_palette = True,
     createParsingProcess = ''parsing process of '' @ key,
     process = (\<lambda>parsing_process. Inr True),
     property_of_parsing_process = (\<lambda>parsing_process name.
       if name \<in> set Object_prototype_properties then Other else Undefined)\<rparr>"

definition example_plugin :: "string plugin_state" where
  "example_plugin =
    fst (checkCallback (example_palette_env ''0'')
      \<lparr>cached_parsing_processes = empty_object\<rparr> True)"

subsection \<open>The plugin: new shell command IDs\<close>

text \<open>
  \<open>parseInt(string)\<close> with no radix: leading white space is skipped, a sign is read,
  \<open>0x\<close> or \<open>0X\<close> selects base 16, and the longest run of digits of the base is the
  value; with no digit the result is \<open>NaN\<close>.

  The numbers of the code are doubles. Every integer from \<open>-2^53\<close> to \<open>2^53\<close> is a
  double, and \<open>Exact n\<close> is such a number. Digits that stand for more than \<open>2^53\<close> give
  \<open>TooLarge\<close>: the code then holds a rounded number of at least \<open>2^53\<close>, which is not
  followed any further here. Digits that stand for less than \<open>-2^53\<close> stay \<open>Exact\<close>:
  the code holds a rounded number that is negative as well, and the only use of it is
  the comparison with \<open>new_id\<close>, which is never negative.
\<close>

datatype js_integer = NaN | Exact int | TooLarge

definition digit_value :: "nat \<Rightarrow> char \<Rightarrow> nat option" where
  "digit_value radix c =
    (case map_of
        [(CHR ''0'', 0), (CHR ''1'', 1), (CHR ''2'', 2), (CHR ''3'', 3), (CHR ''4'', 4),
         (CHR ''5'', 5), (CHR ''6'', 6), (CHR ''7'', 7), (CHR ''8'', 8), (CHR ''9'', 9),
         (CHR ''a'', 10), (CHR ''b'', 11), (CHR ''c'', 12), (CHR ''d'', 13), (CHR ''e'', 14),
         (CHR ''f'', 15), (CHR ''A'', 10), (CHR ''B'', 11), (CHR ''C'', 12), (CHR ''D'', 13),
         (CHR ''E'', 14), (CHR ''F'', 15)] c of
      None \<Rightarrow> None
    | Some d \<Rightarrow> if d < radix then Some d else None)"

definition digits_value :: "nat \<Rightarrow> string \<Rightarrow> nat" where
  "digits_value radix ds =
    foldl (\<lambda>acc c. case digit_value radix c of None \<Rightarrow> acc | Some d \<Rightarrow> acc * radix + d) 0 ds"

definition parse_magnitude :: "string \<Rightarrow> nat option" where
  "parse_magnitude s =
    (let hex = (case s of
                  zero # x # _ \<Rightarrow> zero = CHR ''0'' \<and> (x = CHR ''x'' \<or> x = CHR ''X'')
                | _ \<Rightarrow> False);
         radix = (if hex then 16 else 10);
         ds = takeWhile (\<lambda>c. digit_value radix c \<noteq> None) (if hex then drop 2 s else s)
     in if ds = [] then None else Some (digits_value radix ds))"

definition parseInt :: "string \<Rightarrow> js_integer" where
  "parseInt s =
    (case dropWhile is_js_whitespace s of
      [] \<Rightarrow> NaN
    | c # rest \<Rightarrow>
        (if c = CHR ''-'' then
           (case parse_magnitude rest of
             None \<Rightarrow> NaN
           | Some n \<Rightarrow> Exact (- int n))
         else
           (case parse_magnitude (if c = CHR ''+'' then rest else c # rest) of
             None \<Rightarrow> NaN
           | Some n \<Rightarrow> if int n \<le> 2 ^ 53 then Exact (int n) else TooLarge)))"

text \<open>
  \<open>existing_id + 1\<close> on doubles: \<open>2^53 + 1\<close> is no double, and the sum is rounded to
  the nearest one whose significand is even, which is \<open>2^53\<close> itself.
\<close>

definition plus_one :: "int \<Rightarrow> int" where
  "plus_one existing_id = (if existing_id = 2 ^ 53 then 2 ^ 53 else existing_id + 1)"

text \<open>
  One round of the loop of \<open>generateNewShellCommandID\<close>, on the \<open>new_id\<close> so far: a
  comparison with \<open>NaN\<close> is false. The result is \<open>None\<close> from the first ID that is
  \<open>TooLarge\<close> on: the comparison \<open>existing_id >= new_id\<close> is true then, and \<open>new_id\<close>
  becomes a number that is not followed here.
\<close>

definition next_new_id :: "string \<Rightarrow> int option \<Rightarrow> int option" where
  "next_new_id existing new_id =
    (case new_id of
      None \<Rightarrow> None
    | Some n \<Rightarrow>
        (case parseInt existing of
          NaN \<Rightarrow> Some n
        | TooLarge \<Rightarrow> None
        | Exact existing_id \<Rightarrow>
            if existing_id \<ge> n then Some (plus_one existing_id) else Some n))"

text \<open>
  \<open>generateNewShellCommandID()\<close>, on the list of the property names of the shell
  commands: \<open>String(new_id)\<close>, or \<open>None\<close> where an ID is \<open>TooLarge\<close>.
\<close>

definition generateNewShellCommandID :: "string list \<Rightarrow> string option" where
  "generateNewShellCommandID existing_ids =
    map_option String_int (fold next_new_id existing_ids (Some 0))"

text \<open>
  The integers the existing IDs stand for, the largest integer below which every sum is
  exact, and the lists of IDs on which the code computes with such integers only.
\<close>

definition exact_id :: "string \<Rightarrow> int option" where
  "exact_id existing = (case parseInt existing of Exact n \<Rightarrow> Some n | _ \<Rightarrow> None)"

definition parsed_ids :: "string list \<Rightarrow> int list" where
  "parsed_ids existing_ids = List.map_filter exact_id existing_ids"

definition MAX_SAFE_INTEGER :: int where
  "MAX_SAFE_INTEGER = 2 ^ 53 - 1"

definition safe_id :: "string \<Rightarrow> bool" where
  "safe_id existing =
    (case parseInt existing of
      NaN \<Rightarrow> True
    | Exact n \<Rightarrow> n \<le> MAX_SAFE_INTEGER
    | TooLarge \<Rightarrow> False)"

subsection \<open>\<open>PromptField.applyDefaultValue\<close>\<close>

text \<open>
  The result of \<open>parseVariables\<close>, and what a prompt field holds: the argument of the last
  \<open>setValue\<close> on its form field (\<open>None\<close> is \<open>null\<close>), \<open>parsed_value\<close>,
  \<open>parsing_errors\<close>, the description of the preview setting, and how often the
  \<open>on_change_callback\<close>, when there is one, has been called.
\<close>

record ParsingResult =
  succeeded :: bool
  parsed_content :: "string option"
  error_messages :: "string list"
  count_parsed_variables :: nat
  original_content :: string

record PromptField =
  default_value :: string
  field_value :: "string option"
  parsed_value :: "string option"
  parsing_errors :: "string list"
  preview_description :: "string option"
  has_on_change_callback :: bool
  on_change_calls :: nat

definition setValue :: "string option \<Rightarrow> PromptField \<Rightarrow> PromptField" where
  "setValue v field = field\<lparr>field_value := v\<rparr>"

text \<open>The form field reads a value of \<open>null\<close> back as the empty string.\<close>

definition getValue :: "PromptField \<Rightarrow> string" where
  "getValue field = (case field_value field of None \<Rightarrow> [] | Some v \<Rightarrow> v)"

definition valueHasChanged :: "(string \<Rightarrow> ParsingResult) \<Rightarrow> PromptField \<Rightarrow> PromptField" where
  "valueHasChanged parseVariables field =
    (let parsing_result = parseVariables (getValue field);
         preview =
           (if \<not> succeeded parsing_result then
              (if length (error_messages parsing_result) > 0
               then Some (hd (error_messages parsing_result))
               else Some (original_content parsing_result))
            else parsed_content parsing_result);
         field' =
           (if \<not> succeeded parsing_result then
              field\<lparr>parsed_value := None, parsing_errors := error_messages parsing_result\<rparr>
            else
              field\<lparr>parsed_value := parsed_content parsing_result, parsing_errors := []\<rparr>);
         preview' = (if count_parsed_variables parsing_result = 0 then Some [] else preview)
     in field'\<lparr>preview_description := preview',
               on_change_calls := (if has_on_change_callback field
                                   then Suc (on_change_calls field)
                                   else on_change_calls field)\<rparr>)"

definition applyDefaultValue :: "(string \<Rightarrow> ParsingResult) \<Rightarrow> PromptField \<Rightarrow> PromptField" where
  "applyDefaultValue parseVariables field =
    (let parsing_result = parseVariables (default_value field)
     in valueHasChanged parseVariables
          (if \<not> succeeded parsing_result then setValue (Some (default_value field)) field
           else setValue (parsed_content parsing_result) field))"

text \<open>
  An example of \<open>parseVariables\<close>: it knows the variable \<open>{{title}}\<close> and takes every other
  text that starts a variable as an error.
\<close>

definition example_parseVariables :: "string \<Rightarrow> ParsingResult" where
  "example_parseVariables content =
    (if content = ''{{title}}'' then
       \<lparr>succeeded = True, parsed_content = Some ''My Note'', error_messages = [],
        count_parsed_variables = 1, original_content = content\<rparr>
     else if take 2 content = ''{{'' then
       \<lparr>succeeded = False, parsed_content = None,
        error_messages = [''Unrecognised variable.''],
        count_parsed_variables = 0, original_content = content\<rparr>
     else
       \<lparr>succeeded = True, parsed_content = Some content, error_messages = [],
        count_parsed_variables = 0, original_content = content\<rparr>)"

definition example_field :: "string \<Rightarrow> PromptField" where
  "example_field template =
    \<lparr>default_value = template, field_value = None, parsed_value = None, parsing_errors = [],
     preview_description = None, has_on_change_callback = False, on_change_calls = 0\<rparr>"

section \<open>Verified properties\<close>

subsection \<open>Properties of the buffered classification\<close>

text \<open>
  C2. In buffered mode, with both streams present: an exit code that is \<open>null\<close> or
  greater than 0 is shown as an error (exit code and stderr dispatched unchanged) unless
  the code is not \<open>null\<close> and on the ignore list, and then the dispatch carries an
  empty stderr and no exit code (success); an exit code 0 with a non-empty stderr is
  dispatched as code 0 with the stderr passed through, unless 0 is on the ignore list, and
  then the stderr is emptied as well.
\<close>

theorem buffered_output_classification:
  "stdout cp = Some (Readable out) \<and> stderr cp = Some (Readable err) \<longrightarrow>
    ((exitCode = None \<or> (\<exists>c. exitCode = Some c \<and> c > 0 \<and> c \<notin> set ign)) \<longrightarrow>
       shown_as_error exitCode (or_empty out) (or_empty err)
         (handleBufferedOutput_onExit ign cp exitCode)) \<and>
    ((\<exists>c. exitCode = Some c \<and> c > 0 \<and> c \<in> set ign) \<longrightarrow>
       handleBufferedOutput_onExit ign cp exitCode =
         Inr ([CommandExecutedAndFailed exitCode (or_empty err), UserHasIgnoredThisError],
              \<lparr>dispatched_stdout = or_empty out, dispatched_stderr = [],
               dispatched_exitCode = None\<rparr>)) \<and>
    (exitCode = Some 0 \<and> or_empty err \<noteq> [] \<and> 0 \<notin> set ign \<longrightarrow>
       handleBufferedOutput_onExit ign cp exitCode =
         Inr ([Code0StderrRelayed],
              \<lparr>dispatched_stdout = or_empty out, dispatched_stderr = or_empty err,
               dispatched_exitCode = Some 0\<rparr>)) \<and>
    (exitCode = Some 0 \<and> or_empty err \<noteq> [] \<and> 0 \<in> set ign \<longrightarrow>
       handleBufferedOutput_onExit ign cp exitCode =
         Inr ([Code0StderrIgnored],
              \<lparr>dispatched_stdout = or_empty out, dispatched_stderr = [],
               dispatched_exitCode = Some 0\<rparr>))"
  by (auto simp: handleBufferedOutput_onExit_def shown_as_error_def Let_def)

theorem buffered_output_classification_witness:
  "shown_as_error (Some 1) ''done'' ''boom''
     (handleBufferedOutput_onExit [2] (example_outputs (Some ''done'') (Some ''boom'')) (Some 1)) \<and>
   shown_as_error None ''done'' []
     (handleBufferedOutput_onExit [2] (example_outputs (Some ''done'') None) None) \<and>
   handleBufferedOutput_onExit [1] (example_outputs (Some ''done'') (Some ''boom'')) (Some 1) =
     Inr ([CommandExecutedAndFailed (Some 1) ''boom'', UserHasIgnoredThisError],
          \<lparr>dispatched_stdout = ''done'', dispatched_stderr = [], dispatched_exitCode = None\<rparr>) \<and>
   handleBufferedOutput_onExit [1] (example_outputs (Some ''done'') (Some ''warn'')) (Some 0) =
     Inr ([Code0StderrRelayed],
          \<lparr>dispatched_stdout = ''done'', dispatched_stderr = ''warn'',
           dispatched_exitCode = Some 0\<rparr>) \<and>
   handleBufferedOutput_onExit [0] (example_outputs (Some ''done'') (Some ''warn'')) (Some 0) =
     Inr ([Code0StderrIgnored],
          \<lparr>dispatched_stdout = ''done'', dispatched_stderr = [], dispatched_exitCode = Some 0\<rparr>)"
proof -
  have streams: "\<And>out err. stdout (example_outputs out err) = Some (Readable out) \<and>
      stderr (example_outputs out err) = Some (Readable err)"
    by (simp add: example_outputs_def)
  from buffered_output_classification
    [of "example_outputs (Some ''done'') (Some ''boom'')" "Some ''done''" "Some ''boom''"
      "Some 1" "[2]"] streams
  have r1: "shown_as_error (Some 1) ''done'' ''boom''
      (handleBufferedOutput_onExit [2] (example_outputs (Some ''done'') (Some ''boom'')) (Some 1))"
    by simp
  from buffered_output_classification
    [of "example_outputs (Some ''done'') None" "Some ''done''" None None "[2]"] streams
  have r2: "shown_as_error None ''done'' []
      (handleBufferedOutput_onExit [2] (example_outputs (Some ''done'') None) None)"
    by simp
  from buffered_output_classification
    [of "example_outputs (Some ''done'') (Some ''boom'')" "Some ''done''" "Some ''boom''"
      "Some 1" "[1]"] streams
  have r3: "handleBufferedOutput_onExit [1] (example_outputs (Some ''done'') (Some ''boom''))
      (Some 1) =
      Inr ([CommandExecutedAndFailed (Some 1) ''boom'', UserHasIgnoredThisError],
           \<lparr>dispatched_stdout = ''done'', dispatched_stderr = [],
            dispatched_exitCode = None\<rparr>)"
    by simp
  from buffered_output_classification
    [of "example_outputs (Some ''done'') (Some ''warn'')" "Some ''done''" "Some ''warn''"
      "Some 0" "[1]"] streams
  have r4: "handleBufferedOutput_onExit [1] (example_outputs (Some ''done'') (Some ''warn''))
      (Some 0) =
      Inr ([Code0StderrRelayed],
           \<lparr>dispatched_stdout = ''done'', dispatched_stderr = ''warn'',
            dispatched_exitCode = Some 0\<rparr>)"
    by simp
  from buffered_output_classification
    [of "example_outputs (Some ''done'') (Some ''warn'')" "Some ''done''" "Some ''warn''"
      "Some 0" "[0]"] streams
  have r5: "handleBufferedOutput_onExit [0] (example_outputs (Some ''done'') (Some ''warn''))
      (Some 0) =
      Inr ([Code0StderrIgnored],
           \<lparr>dispatched_stdout = ''done'', dispatched_stderr = [],
            dispatched_exitCode = Some 0\<rparr>)"
    by simp
  from r1 r2 r3 r4 r5 show ?thesis by blast
qed

subsection \<open>Properties of the realtime finalization\<close>

lemma one_channel_per_codeD:
  assumes "one_channel_per_code cfg chans" "(s1, ch1) \<in> set chans" "(s2, ch2) \<in> set chans"
  shows "(handler (cfg s1) = handler (cfg s2)) = (ch1 = ch2)"
proof -
  from assms(1) have a: "\<forall>p\<in>set chans. \<forall>q\<in>set chans.
      (handler (cfg (fst p)) = handler (cfg (fst q))) = (snd p = snd q)"
    unfolding one_channel_per_code_def list_all_iff .
  from bspec [OF bspec [OF a assms(2)] assms(3)] show ?thesis by simp
qed

lemma one_channel_per_code_tail:
  assumes "one_channel_per_code cfg (p # chans)"
  shows "one_channel_per_code cfg chans"
  using assms unfolding one_channel_per_code_def list_all_iff by simp

lemma loop_no_exception:
  "all_defined chans \<Longrightarrow> snd (endRealtime_loop cfg ec already chans) = None"
proof (induction chans arbitrary: already)
  case Nil
  then show ?case by simp
next
  case (Cons p chans)
  then have "all_defined chans" by (simp add: all_defined_def)
  from Cons.IH [OF this] Cons.prems show ?case
    by (cases p) (auto simp: all_defined_def Let_def)
qed

lemma loop_calls_origin:
  "e \<in> set (fst (endRealtime_loop cfg ec already chans)) \<Longrightarrow>
    \<exists>s c. (s, Some c) \<in> set chans \<and> e = EndRealtime c ec \<and> handler (cfg s) \<notin> set already"
proof (induction chans arbitrary: already)
  case Nil
  then show ?case by simp
next
  case (Cons p chans)
  obtain s ch where p: "p = (s, ch)" by (cases p)
  show ?case
  proof (cases ch)
    case None
    with Cons.prems p show ?thesis by simp
  next
    case (Some c)
    show ?thesis
    proof (cases "handler (cfg s) \<in> set already")
      case True
      with Cons.prems p Some
      have "e \<in> set (fst (endRealtime_loop cfg ec already chans))"
        by simp
      from Cons.IH [OF this] show ?thesis by auto
    next
      case False
      with Cons.prems p Some
      have "e = EndRealtime c ec \<or>
            e \<in> set (fst (endRealtime_loop cfg ec (already @ [handler (cfg s)]) chans))"
        by (auto simp: Let_def)
      then show ?thesis
      proof
        assume "e = EndRealtime c ec"
        with p Some False show ?thesis by auto
      next
        assume "e \<in> set (fst (endRealtime_loop cfg ec (already @ [handler (cfg s)]) chans))"
        from Cons.IH [OF this] show ?thesis by auto
      qed
    qed
  qed
qed

lemma loop_count:
  "all_defined chans \<Longrightarrow> one_channel_per_code cfg chans \<Longrightarrow> (s, Some c) \<in> set chans \<Longrightarrow>
    count_list (fst (endRealtime_loop cfg ec already chans)) (EndRealtime c ec) =
      (if handler (cfg s) \<in> set already then 0 else 1)"
proof (induction chans arbitrary: already)
  case Nil
  then show ?case by simp
next
  case (Cons p chans)
  obtain s0 ch0 where p: "p = (s0, ch0)" by (cases p)
  from Cons.prems(1) p obtain c0 where ch0: "ch0 = Some c0"
    by (auto simp: all_defined_def)
  have def': "all_defined chans" using Cons.prems(1) by (simp add: all_defined_def)
  have share: "\<And>s1 c1 s2 c2. (s1, Some c1) \<in> set (p # chans) \<Longrightarrow> (s2, Some c2) \<in> set (p # chans)
      \<Longrightarrow> (handler (cfg s1) = handler (cfg s2)) = (c1 = c2)"
  proof -
    fix s1 c1 s2 c2
    assume "(s1, Some c1) \<in> set (p # chans)" and "(s2, Some c2) \<in> set (p # chans)"
    from one_channel_per_codeD [OF Cons.prems(2) this]
    show "(handler (cfg s1) = handler (cfg s2)) = (c1 = c2)" by simp
  qed
  have share': "one_channel_per_code cfg chans"
    using Cons.prems(2) by (rule one_channel_per_code_tail)
  have head_in: "(s0, Some c0) \<in> set (p # chans)" using p ch0 by simp
  have same: "(handler (cfg s) = handler (cfg s0)) = (c = c0)"
    using share [OF Cons.prems(3) head_in] .
  show ?case
  proof (cases "handler (cfg s0) \<in> set already")
    case True
    then have step: "endRealtime_loop cfg ec already (p # chans) = endRealtime_loop cfg ec already chans"
      using p ch0 by simp
    show ?thesis
    proof (cases "(s, Some c) \<in> set chans")
      case True
      from Cons.IH [OF def' share' True] step show ?thesis by simp
    next
      case False
      with Cons.prems(3) p ch0 have eq: "s = s0" "c = c0" by auto
      have "EndRealtime c ec \<notin> set (fst (endRealtime_loop cfg ec already chans))"
      proof
        assume "EndRealtime c ec \<in> set (fst (endRealtime_loop cfg ec already chans))"
        from loop_calls_origin [OF this] obtain s1 where
          s1: "(s1, Some c) \<in> set chans" "handler (cfg s1) \<notin> set already" by auto
        have "(handler (cfg s1) = handler (cfg s0)) = (c = c0)"
          using share [of s1 c s0 c0] s1(1) head_in by simp
        with eq True s1(2) show False by simp
      qed
      then show ?thesis using step True eq by (simp add: count_list_0_iff)
    qed
  next
    case notin: False
    let ?already' = "already @ [handler (cfg s0)]"
    have step: "fst (endRealtime_loop cfg ec already (p # chans)) =
        EndRealtime c0 ec # fst (endRealtime_loop cfg ec ?already' chans)"
      using p ch0 notin by (simp add: Let_def)
    show ?thesis
    proof (cases "c = c0")
      case True
      then have code: "handler (cfg s) = handler (cfg s0)" using same by simp
      have "EndRealtime c ec \<notin> set (fst (endRealtime_loop cfg ec ?already' chans))"
      proof
        assume "EndRealtime c ec \<in> set (fst (endRealtime_loop cfg ec ?already' chans))"
        from loop_calls_origin [OF this] obtain s1 where
          s1: "(s1, Some c) \<in> set chans" "handler (cfg s1) \<notin> set ?already'" by auto
        have "(handler (cfg s1) = handler (cfg s0)) = (c = c0)"
          using share [of s1 c s0 c0] s1(1) head_in by simp
        with True s1(2) show False by simp
      qed
      then show ?thesis using step True code notin by (simp add: count_list_0_iff)
    next
      case False
      then have ne: "handler (cfg s) \<noteq> handler (cfg s0)" using same by simp
      from False Cons.prems(3) p ch0 have mem: "(s, Some c) \<in> set chans" by auto
      from Cons.IH [OF def' share' mem, of ?already'] step False ne
      show ?thesis by simp
    qed
  qed
qed

lemma loop_length:
  "all_defined chans \<Longrightarrow>
    length (fst (endRealtime_loop cfg ec already chans)) =
      card ((\<lambda>p. handler (cfg (fst p))) ` set chans - set already)"
proof (induction chans arbitrary: already)
  case Nil
  then show ?case by simp
next
  case (Cons p chans)
  obtain s0 ch0 where p: "p = (s0, ch0)" by (cases p)
  from Cons.prems p obtain c0 where ch0: "ch0 = Some c0"
    by (auto simp: all_defined_def)
  have def': "all_defined chans" using Cons.prems by (simp add: all_defined_def)
  let ?C = "(\<lambda>p. handler (cfg (fst p))) ` set chans"
  let ?k = "handler (cfg s0)"
  show ?case
  proof (cases "?k \<in> set already")
    case True
    then have "insert ?k ?C - set already = ?C - set already" by auto
    with True Cons.IH [OF def', of already] p ch0 show ?thesis by simp
  next
    case False
    have fin: "finite (?C - set (already @ [?k]))" by simp
    have notin: "?k \<notin> ?C - set (already @ [?k])" by simp
    have "insert ?k ?C - set already = insert ?k (?C - set (already @ [?k]))"
      using False by auto
    then have "card (insert ?k ?C - set already) = Suc (card (?C - set (already @ [?k])))"
      using card_insert_disjoint [OF fin notin] by simp
    with False Cons.IH [OF def', of "already @ [?k]"] p ch0 show ?thesis
      by (simp add: Let_def)
  qed
qed

text \<open>
  C6. On process exit in realtime mode, when every stream holds a channel: the listener
  ends without an exception, it makes one \<open>endRealtime\<close> call per distinct handler
  code, every call is on a channel of \<open>outputChannels\<close> with the exit code, and, the
  channels being shared as the handler codes are, every channel is finalized exactly
  once; so a channel that serves both stdout and stderr is finalized once, not twice.
\<close>

theorem realtime_finalization_uniqueness:
  "all_defined chans \<longrightarrow>
    snd (handleRealtimeOutput_onExit cfg chans ec) = None \<and>
    length (fst (handleRealtimeOutput_onExit cfg chans ec)) =
      card ((\<lambda>p. handler (cfg (fst p))) ` set chans) \<and>
    (\<forall>e. e \<in> set (fst (handleRealtimeOutput_onExit cfg chans ec)) \<longrightarrow>
      (\<exists>s c. (s, Some c) \<in> set chans \<and> e = EndRealtime c ec)) \<and>
    (one_channel_per_code cfg chans \<longrightarrow>
      (\<forall>s c. (s, Some c) \<in> set chans \<longrightarrow>
        count_list (fst (handleRealtimeOutput_onExit cfg chans ec)) (EndRealtime c ec) = 1))"
proof (intro impI conjI allI)
  assume d: "all_defined chans"
  show "snd (handleRealtimeOutput_onExit cfg chans ec) = None"
    unfolding handleRealtimeOutput_onExit_def by (rule loop_no_exception [OF d])
  show "length (fst (handleRealtimeOutput_onExit cfg chans ec)) =
      card ((\<lambda>p. handler (cfg (fst p))) ` set chans)"
    unfolding handleRealtimeOutput_onExit_def using loop_length [OF d, of cfg ec "[]"] by simp
next
  fix e
  assume "e \<in> set (fst (handleRealtimeOutput_onExit cfg chans ec))"
  then show "\<exists>s c. (s, Some c) \<in> set chans \<and> e = EndRealtime c ec"
    unfolding handleRealtimeOutput_onExit_def using loop_calls_origin by blast
next
  fix s c
  assume "all_defined chans" "one_channel_per_code cfg chans" "(s, Some c) \<in> set chans"
  from loop_count [OF this, of ec "[]"]
  show "count_list (fst (handleRealtimeOutput_onExit cfg chans ec)) (EndRealtime c ec) = 1"
    unfolding handleRealtimeOutput_onExit_def by simp
qed

theorem realtime_finalization_uniqueness_witness:
  "handleRealtimeOutput_onExit (\<lambda>s. \<lparr>handler = ''notification''\<rparr>)
      [(Stdout, Some 0), (Stderr, Some 0)] (Some 0) = ([EndRealtime 0 (Some 0)], None) \<and>
   count_list (fst (handleRealtimeOutput_onExit (\<lambda>s. \<lparr>handler = ''notification''\<rparr>)
      [(Stdout, Some 0), (Stderr, Some 0)] (Some 0))) (EndRealtime 0 (Some 0)) = 1 \<and>
   count_list (fst (handleRealtimeOutput_onExit
      (\<lambda>s. \<lparr>handler = (if s = Stdout then ''notification'' else ''modal'')\<rparr>)
      [(Stdout, Some 0), (Stderr, Some 1)] (Some 0))) (EndRealtime 1 (Some 0)) = 1"
proof -
  let ?cfg = "\<lambda>s::OutputStream. \<lparr>handler = ''notification''\<rparr>"
  let ?chans = "[(Stdout, Some 0), (Stderr, Some (0::nat))]"
  let ?cfg2 = "\<lambda>s. \<lparr>handler = (if s = Stdout then ''notification'' else ''modal'')\<rparr>"
  let ?chans2 = "[(Stdout, Some 0), (Stderr, Some (1::nat))]"
  have d: "all_defined ?chans" "all_defined ?chans2" by (simp_all add: all_defined_def)
  have o: "one_channel_per_code ?cfg ?chans" "one_channel_per_code ?cfg2 ?chans2"
    by (simp_all add: one_channel_per_code_def)
  have m: "(Stderr, Some 0) \<in> set ?chans" "(Stderr, Some 1) \<in> set ?chans2" by simp_all
  have v: "handleRealtimeOutput_onExit ?cfg ?chans (Some 0) = ([EndRealtime 0 (Some 0)], None)"
    by (simp add: handleRealtimeOutput_onExit_def)
  from realtime_finalization_uniqueness [of ?chans ?cfg "Some 0"] d(1) o(1) m(1)
  have c1: "count_list (fst (handleRealtimeOutput_onExit ?cfg ?chans (Some 0)))
      (EndRealtime 0 (Some 0)) = 1" by blast
  from realtime_finalization_uniqueness [of ?chans2 ?cfg2 "Some 0"] d(2) o(2) m(2)
  have c2: "count_list (fst (handleRealtimeOutput_onExit ?cfg2 ?chans2 (Some 0)))
      (EndRealtime 1 (Some 0)) = 1" by blast
  from v c1 c2 show ?thesis by blast
qed

subsection \<open>One chunk in realtime mode\<close>

text \<open>
  The order of the events of one call of \<open>handleNewOutputContent\<close>. Whatever happens,
  the events are an initial part of: pause stdout, pause stderr, read the chunk, call
  \<open>handleRealtime\<close>, its promise resolves, resume stdout, resume stderr. So both streams
  are paused before the chunk is read and handed over, and neither is resumed before
  the handling has completed. With both streams and the channel present and a handling
  that completes, all seven events happen.
\<close>

theorem chunk_dispatch_order:
  "(\<exists>channel content later.
      [Pause Stdout, Pause Stderr, ReadChunk s, CallHandleRealtime channel s content,
       HandleRealtimeResolved, Resume Stdout, Resume Stderr] =
      fst (handleNewOutputContent cp chans handling s rs) @ later) \<and>
   (stdout cp \<noteq> None \<and> stderr cp \<noteq> None \<and> channel_of chans s = Some channel' \<and>
    handling = Resolves () \<longrightarrow>
      handleNewOutputContent cp chans handling s rs =
        ([Pause Stdout, Pause Stderr, ReadChunk s,
          CallHandleRealtime channel' s (or_empty (read rs)),
          HandleRealtimeResolved, Resume Stdout, Resume Stderr], None))"
proof
  show "\<exists>channel content later.
      [Pause Stdout, Pause Stderr, ReadChunk s, CallHandleRealtime channel s content,
       HandleRealtimeResolved, Resume Stdout, Resume Stderr] =
      fst (handleNewOutputContent cp chans handling s rs) @ later"
  proof (cases "stdout cp = None \<or> stderr cp = None")
    case True
    then show ?thesis by (simp add: handleNewOutputContent_def)
  next
    case present: False
    show ?thesis
    proof (cases "channel_of chans s")
      case None
      with present show ?thesis by (simp add: handleNewOutputContent_def)
    next
      case (Some channel)
      with present show ?thesis
        by (cases handling) (simp_all add: handleNewOutputContent_def)
    qed
  qed
  show "stdout cp \<noteq> None \<and> stderr cp \<noteq> None \<and> channel_of chans s = Some channel' \<and>
    handling = Resolves () \<longrightarrow>
      handleNewOutputContent cp chans handling s rs =
        ([Pause Stdout, Pause Stderr, ReadChunk s,
          CallHandleRealtime channel' s (or_empty (read rs)),
          HandleRealtimeResolved, Resume Stdout, Resume Stderr], None)"
    by (simp add: handleNewOutputContent_def)
qed

theorem chunk_dispatch_order_witness:
  "handleNewOutputContent example_child [(Stdout, Some 0), (Stderr, Some 0)] (Resolves ())
     Stderr (Readable (Some ''warning'')) =
     ([Pause Stdout, Pause Stderr, ReadChunk Stderr, CallHandleRealtime 0 Stderr ''warning'',
       HandleRealtimeResolved, Resume Stdout, Resume Stderr], None)"
proof -
  have "stdout example_child \<noteq> None" "stderr example_child \<noteq> None"
    "channel_of [(Stdout, Some 0), (Stderr, Some 0)] Stderr = Some 0"
    by (simp_all add: example_child_def channel_of_def)
  with chunk_dispatch_order [of Stderr example_child "[(Stdout, Some 0), (Stderr, Some 0)]"
      "Resolves ()" "Readable (Some ''warning'')" 0]
  show ?thesis by simp
qed

subsection \<open>The working directory of a shell\<close>

text \<open>
  How the two methods relate. For an empty or a relative configured directory the
  shell's method returns the translation of what the executor's returns; an absolute
  directory both return as it is configured, without translation.
\<close>

theorem working_directory_of_shell_and_executor:
  "(dir = [] \<or> \<not> isAbsolute p dir \<longrightarrow>
      Shell_getWorkingDirectory p translate vault dir =
        translate (ShellCommandExecutor_getWorkingDirectory p vault dir)) \<and>
   (dir = [] \<longrightarrow> Shell_getWorkingDirectory p translate vault dir = translate vault) \<and>
   (dir \<noteq> [] \<and> \<not> isAbsolute p dir \<longrightarrow>
      Shell_getWorkingDirectory p translate vault dir = translate (join p vault dir)) \<and>
   (dir \<noteq> [] \<and> isAbsolute p dir \<longrightarrow>
      Shell_getWorkingDirectory p translate vault dir = dir \<and>
      ShellCommandExecutor_getWorkingDirectory p vault dir = dir)"
  by (simp add: Shell_getWorkingDirectory_def ShellCommandExecutor_getWorkingDirectory_def)

theorem working_directory_of_shell_and_executor_witness:
  "Shell_getWorkingDirectory posix wsl_translateAbsolutePath ''/home/me/vault'' [] =
     ''/home/me/vault'' \<and>
   Shell_getWorkingDirectory posix wsl_translateAbsolutePath ''/home/me/vault'' ''../scripts'' =
     ''/home/me/scripts'' \<and>
   Shell_getWorkingDirectory posix wsl_translateAbsolutePath ''/home/me/vault'' ''/srv'' =
     ''/srv''"
proof -
  have a: "\<not> isAbsolute posix ''../scripts''" "isAbsolute posix ''/srv''"
    by (simp_all add: posix_def posix_isAbsolute_def)
  have j: "join posix ''/home/me/vault'' ''../scripts'' = ''/home/me/scripts''"
    by (simp add: posix_def posix_join_def posix_normalize_def posix_isAbsolute_def)
  have t: "wsl_translateAbsolutePath ''/home/me/vault'' = ''/home/me/vault''"
    "wsl_translateAbsolutePath ''/home/me/scripts'' = ''/home/me/scripts''"
    by (simp_all add: wsl_translateAbsolutePath_def isWindowsDeviceRoot_def to_slash_def)
  from working_directory_of_shell_and_executor
    [of "[]" posix wsl_translateAbsolutePath "''/home/me/vault''"] t(1)
  have r1: "Shell_getWorkingDirectory posix wsl_translateAbsolutePath ''/home/me/vault'' [] =
      ''/home/me/vault''" by metis
  from working_directory_of_shell_and_executor
    [of "''../scripts''" posix wsl_translateAbsolutePath "''/home/me/vault''"] a(1) j t(2)
  have r2: "Shell_getWorkingDirectory posix wsl_translateAbsolutePath ''/home/me/vault''
      ''../scripts'' = ''/home/me/scripts''" by force
  from working_directory_of_shell_and_executor
    [of "''/srv''" posix wsl_translateAbsolutePath "''/home/me/vault''"] a(2)
  have r3: "Shell_getWorkingDirectory posix wsl_translateAbsolutePath ''/home/me/vault''
      ''/srv'' = ''/srv''" by force
  from r1 r2 r3 show ?thesis by simp
qed

text \<open>
  C1. The third case of the claim fails on the code: an absolute working directory is
  returned as it is configured, not translated. On Windows, with a shell of the Windows
  Subsystem for Linux and the working directory \<open>C:\Scripts\<close>, the method returns
  \<open>C:\Scripts\<close>, while the translation is \<open>/mnt/c/Scripts\<close>.
\<close>

theorem absolute_working_directory_not_translated:
  "(\<forall>join_paths.
      Shell_getWorkingDirectory \<lparr>isAbsolute = win32_isAbsolute, join = join_paths\<rparr>
        wsl_translateAbsolutePath (''C:'' @ [CHR 0x5C] @ ''Vault'') (''C:'' @ [CHR 0x5C] @ ''Scripts'') =
      ''C:'' @ [CHR 0x5C] @ ''Scripts'') \<and>
   wsl_translateAbsolutePath (''C:'' @ [CHR 0x5C] @ ''Scripts'') = ''/mnt/c/Scripts''"
  by (simp add: Shell_getWorkingDirectory_def win32_isAbsolute_def isPathSeparator_def
      isWindowsDeviceRoot_def wsl_translateAbsolutePath_def to_slash_def ascii_lower_def)

subsection \<open>Validation before the spawn\<close>

lemma executeShellCommand_empty:
  assumes "trim (unwrappedShellCommandContent r) = []"
  shows "executeShellCommand env r ov = ([NewError (getErrorMessageForEmptyShellCommand env)], None)"
  using assms by (simp add: executeShellCommand_def Let_def)

lemma join_strings_names:
  "x \<in> set xs \<Longrightarrow> \<exists>before after. join_strings sep xs = before @ x @ after"
proof (induction sep xs rule: join_strings.induct)
  case (1 sep)
  then show ?case by simp
next
  case (2 sep x')
  then have "join_strings sep [x'] = [] @ x @ []" by simp
  then show ?case by blast
next
  case (3 sep x' y rest)
  show ?case
  proof (cases "x = x'")
    case True
    then have "join_strings sep (x' # y # rest) = [] @ x @ (sep @ join_strings sep (y # rest))"
      by simp
    then show ?thesis by blast
  next
    case False
    with 3 obtain before after where "join_strings sep (y # rest) = before @ x @ after"
      by auto
    then have "join_strings sep (x' # y # rest) = (x' @ sep @ before) @ x @ after"
      by simp
    then show ?thesis by blast
  qed
qed

text \<open>
  C4. When the resolved working directory does not exist, or exists but is not a
  directory, \<open>executeShellCommand\<close> ends without an exception, it never calls
  \<open>shell.spawnChildProcess\<close>, and its only effect is one error notice; for a command
  that is not empty this notice says which of the two is the case and names the
  directory.
\<close>

theorem working_directory_validation:
  "dir = ShellCommandExecutor_getWorkingDirectory (path env) (vaultAbsolutePath env)
           (working_directory env) \<and>
   (\<not> existsSync env dir \<or> \<not> lstat_isDirectory env dir) \<longrightarrow>
     snd (executeShellCommand env r ov) = None \<and>
     \<not> list_ex is_spawn (fst (executeShellCommand env r ov)) \<and>
     (\<exists>message. fst (executeShellCommand env r ov) = [NewError message]) \<and>
     (trim (unwrappedShellCommandContent r) \<noteq> [] \<longrightarrow>
       fst (executeShellCommand env r ov) =
         [NewError ((if \<not> existsSync env dir then ''Working directory does not exist: ''
                     else ''Working directory exists but is not a folder: '') @ dir)])"
  by (auto simp: executeShellCommand_def Let_def)

theorem working_directory_validation_witness:
  "executeShellCommand (example_env\<lparr>working_directory := ''/home/me/missing''\<rparr>)
     (example_result ''ls'') None =
     ([NewError ''Working directory does not exist: /home/me/missing''], None) \<and>
   executeShellCommand (example_env\<lparr>working_directory := ''todo.md''\<rparr>)
     (example_result ''ls'') None =
     ([NewError ''Working directory exists but is not a folder: /home/me/vault/todo.md''], None)"
proof -
  let ?missing = "example_env\<lparr>working_directory := ''/home/me/missing''\<rparr>"
  let ?file = "example_env\<lparr>working_directory := ''todo.md''\<rparr>"
  have dir1: "ShellCommandExecutor_getWorkingDirectory (path ?missing) (vaultAbsolutePath ?missing)
      (working_directory ?missing) = ''/home/me/missing''"
    by (simp add: ShellCommandExecutor_getWorkingDirectory_def example_env_def posix_def
        posix_isAbsolute_def)
  have dir2: "ShellCommandExecutor_getWorkingDirectory (path ?file) (vaultAbsolutePath ?file)
      (working_directory ?file) = ''/home/me/vault/todo.md''"
    by (simp add: ShellCommandExecutor_getWorkingDirectory_def example_env_def posix_def
        posix_isAbsolute_def posix_join_def posix_normalize_def)
  have no1: "\<not> existsSync ?missing ''/home/me/missing''"
    by (simp add: example_env_def)
  have no2: "\<not> lstat_isDirectory ?file ''/home/me/vault/todo.md''"
    by (simp add: example_env_def)
  have cmd: "trim (unwrappedShellCommandContent (example_result ''ls'')) \<noteq> []"
    by (simp add: example_result_def trim_def is_js_whitespace_def)
  have yes2: "existsSync ?file ''/home/me/vault/todo.md''"
    by (simp add: example_env_def)
  from working_directory_validation [of "''/home/me/missing''" ?missing "example_result ''ls''" None]
    dir1 no1 cmd
  have r1: "executeShellCommand ?missing (example_result ''ls'') None =
      ([NewError ''Working directory does not exist: /home/me/missing''], None)"
    by (simp add: prod_eq_iff)
  from working_directory_validation [of "''/home/me/vault/todo.md''" ?file "example_result ''ls''" None]
    dir2 no2 yes2 cmd
  have r2: "executeShellCommand ?file (example_result ''ls'') None =
      ([NewError ''Working directory exists but is not a folder: /home/me/vault/todo.md''], None)"
    by (simp add: prod_eq_iff)
  from r1 r2 show ?thesis by simp
qed

text \<open>
  C5. When the unwrapped command is empty after trimming, \<open>executeShellCommand\<close> ends
  without an exception and its only effect is one error notice, so nothing is spawned.
  With no platform that has a version the notice is \<open>The shell command is empty. :(\<close>;
  otherwise it is another text, which names the current platform and, joined by
  \<open>and\<close>, every platform that has a version.
\<close>

theorem empty_command_validation:
  "trim (unwrappedShellCommandContent r) = [] \<longrightarrow>
     executeShellCommand env r ov = ([NewError (getErrorMessageForEmptyShellCommand env)], None) \<and>
     \<not> list_ex is_spawn (fst (executeShellCommand env r ov)) \<and>
     (nonEmptyPlatformIds env = [] \<longrightarrow>
        getErrorMessageForEmptyShellCommand env = ''The shell command is empty. :('') \<and>
     (nonEmptyPlatformIds env \<noteq> [] \<longrightarrow>
        getErrorMessageForEmptyShellCommand env \<noteq> ''The shell command is empty. :('' \<and>
        getErrorMessageForEmptyShellCommand env =
          ''The shell command does not have a version for '' @ currentPlatformName env @
          '', it only has '' @
          (if length (nonEmptyPlatformIds env) > 1 then ''versions'' else ''a version'') @
          '' for '' @ join_strings '' and '' (map (platformName env) (nonEmptyPlatformIds env)) @
          ''.'' \<and>
        (\<forall>platform_id. platform_id \<in> set (nonEmptyPlatformIds env) \<longrightarrow>
           (\<exists>before after. getErrorMessageForEmptyShellCommand env =
              before @ platformName env platform_id @ after)))"
proof (intro impI conjI allI)
  assume e: "trim (unwrappedShellCommandContent r) = []"
  show "executeShellCommand env r ov = ([NewError (getErrorMessageForEmptyShellCommand env)], None)"
    by (rule executeShellCommand_empty [OF e])
  then show "\<not> list_ex is_spawn (fst (executeShellCommand env r ov))" by simp
next
  assume "nonEmptyPlatformIds env = []"
  then show "getErrorMessageForEmptyShellCommand env = ''The shell command is empty. :(''"
    by (simp add: getErrorMessageForEmptyShellCommand_def)
next
  assume "nonEmptyPlatformIds env \<noteq> []"
  then show "getErrorMessageForEmptyShellCommand env \<noteq> ''The shell command is empty. :(''"
    by (simp add: getErrorMessageForEmptyShellCommand_def Let_def)
next
  assume "nonEmptyPlatformIds env \<noteq> []"
  then show "getErrorMessageForEmptyShellCommand env =
      ''The shell command does not have a version for '' @ currentPlatformName env @
      '', it only has '' @
      (if length (nonEmptyPlatformIds env) > 1 then ''versions'' else ''a version'') @
      '' for '' @ join_strings '' and '' (map (platformName env) (nonEmptyPlatformIds env)) @
      ''.''"
    by (simp add: getErrorMessageForEmptyShellCommand_def Let_def)
next
  fix platform_id
  assume ne: "nonEmptyPlatformIds env \<noteq> []"
    and "platform_id \<in> set (nonEmptyPlatformIds env)"
  then have "platformName env platform_id \<in> set (map (platformName env) (nonEmptyPlatformIds env))"
    by simp
  from join_strings_names [OF this, of "'' and ''"] obtain before after where
    j: "join_strings '' and '' (map (platformName env) (nonEmptyPlatformIds env)) =
        before @ platformName env platform_id @ after" by blast
  let ?head = "''The shell command does not have a version for '' @ currentPlatformName env @
      '', it only has '' @
      (if length (nonEmptyPlatformIds env) > 1 then ''versions'' else ''a version'') @ '' for ''"
  have "getErrorMessageForEmptyShellCommand env =
      (?head @ before) @ platformName env platform_id @ (after @ ''.'')"
    using ne j by (simp add: getErrorMessageForEmptyShellCommand_def Let_def)
  then show "\<exists>before after. getErrorMessageForEmptyShellCommand env =
      before @ platformName env platform_id @ after" by blast
qed

theorem empty_command_validation_witness:
  "executeShellCommand example_env (example_result ''  '') None =
     ([NewError ''The shell command is empty. :(''], None) \<and>
   executeShellCommand (example_env\<lparr>nonEmptyPlatformIds := [''darwin'', ''win32'']\<rparr>)
     (example_result []) None =
     ([NewError ''The shell command does not have a version for Linux, it only has versions for macOS and Windows.''], None)"
proof -
  let ?other = "example_env\<lparr>nonEmptyPlatformIds := [''darwin'', ''win32'']\<rparr>"
  have e1: "trim (unwrappedShellCommandContent (example_result ''  '')) = []"
    by (simp add: example_result_def trim_def is_js_whitespace_def)
  have e2: "trim (unwrappedShellCommandContent (example_result [])) = []"
    by (simp add: example_result_def trim_def)
  have n1: "nonEmptyPlatformIds example_env = []" by (simp add: example_env_def)
  have n2: "nonEmptyPlatformIds ?other \<noteq> []" by simp
  from empty_command_validation [of "example_result ''  ''" example_env None] e1 n1
  have r1: "executeShellCommand example_env (example_result ''  '') None =
      ([NewError ''The shell command is empty. :(''], None)" by simp
  from empty_command_validation [of "example_result []" ?other None] e2 n2
  have "executeShellCommand ?other (example_result []) None =
      ([NewError (''The shell command does not have a version for '' @ currentPlatformName ?other @
          '', it only has '' @
          (if length (nonEmptyPlatformIds ?other) > 1 then ''versions'' else ''a version'') @
          '' for '' @ join_strings '' and '' (map (platformName ?other) (nonEmptyPlatformIds ?other)) @
          ''.'')], None)" by simp
  then have r2: "executeShellCommand ?other (example_result []) None =
     ([NewError ''The shell command does not have a version for Linux, it only has versions for macOS and Windows.''], None)"
    by (simp add: example_env_def example_platformName_def)
  from r1 r2 show ?thesis by simp
qed

subsection \<open>The preaction pipeline\<close>

lemma add_preactions_NeverSettles:
  "add_preactions i NeverSettles steps = ([], NeverSettles)"
  by (cases steps) simp_all

lemma add_preactions_all_resolve:
  "list_all (\<lambda>step. \<exists>v. step = Resolves v) steps \<Longrightarrow>
    add_preactions i (Resolves v) steps =
      (map PerformPreaction [i..<i + length steps], last (Resolves v # steps))"
proof (induction steps arbitrary: i v)
  case Nil
  then show ?case by simp
next
  case (Cons step steps)
  then obtain w where w: "step = Resolves w" by auto
  from Cons.prems have "list_all (\<lambda>step. \<exists>v. step = Resolves v) steps" by simp
  from Cons.IH [OF this, of "Suc i" w]
  have later: "add_preactions (Suc i) (Resolves w) steps =
      (map PerformPreaction [Suc i..<Suc i + length steps], last (Resolves w # steps))" .
  have "i < i + length (step # steps)" by simp
  from upt_conv_Cons [OF this]
  have range: "[i..<i + length (step # steps)] = i # [Suc i..<Suc i + length steps]"
    by (simp only: length_Cons add_Suc_right add_Suc)
  have step: "add_preactions i (Resolves v) (step # steps) =
      (PerformPreaction i # map PerformPreaction [Suc i..<Suc i + length steps],
       last (Resolves w # steps))"
    unfolding w by (simp only: add_preactions.simps promise.case Let_def later fst_conv snd_conv)
  have l: "last (Resolves v # step # steps) = last (Resolves w # steps)"
    unfolding w by simp
  show ?case unfolding range list.map l using step .
qed

text \<open>
  Where the pipeline does stop. When the confirmation is configured and the user
  declines it, or the promise of its modal never settles, the promise of the step never
  settles: the modal is opened and nothing else happens. When the promise of the modal
  rejects, the step never settles either, and the rejection is left unhandled. When
  every step resolves and the last preaction resolves to \<open>false\<close>, all preactions are
  performed and the last callback does nothing. In all these cases \<open>processRest()\<close> is
  not called, nothing is spawned and no error notice is shown.
\<close>

theorem pipeline_cancellation:
  "(confirm_execution env \<and>
    (confirmation_modal env = Resolves False \<or> confirmation_modal env = NeverSettles) \<longrightarrow>
      run_pipeline env ov = [OpenConfirmationModal]) \<and>
   (confirm_execution env \<and> confirmation_modal env = Rejects message \<longrightarrow>
      run_pipeline env ov = [OpenConfirmationModal, UnhandledRejection message]) \<and>
   ((confirm_execution env \<longrightarrow> confirmation_modal env = Resolves True) \<and>
    preactions env = steps @ [Resolves False] \<and>
    list_all (\<lambda>step. \<exists>v. step = Resolves v) steps \<longrightarrow>
      run_pipeline env ov =
        (if confirm_execution env then [OpenConfirmationModal] else []) @
        map PerformPreaction [0..<length (preactions env)])"
proof (intro conjI impI)
  assume "confirm_execution env \<and>
    (confirmation_modal env = Resolves False \<or> confirmation_modal env = NeverSettles)"
  then have "confirm_execution env"
    "confirmation_step (confirmation_modal env) = ([], NeverSettles)"
    by (auto simp: confirmation_step_def)
  then show "run_pipeline env ov = [OpenConfirmationModal]"
    by (simp add: run_pipeline_def add_preactions_NeverSettles after_preactions_def)
next
  assume "confirm_execution env \<and> confirmation_modal env = Rejects message"
  then have "confirm_execution env"
    "confirmation_step (confirmation_modal env) = ([UnhandledRejection message], NeverSettles)"
    by (auto simp: confirmation_step_def)
  then show "run_pipeline env ov = [OpenConfirmationModal, UnhandledRejection message]"
    by (simp add: run_pipeline_def add_preactions_NeverSettles after_preactions_def)
next
  assume a: "(confirm_execution env \<longrightarrow> confirmation_modal env = Resolves True) \<and>
    preactions env = steps @ [Resolves False] \<and>
    list_all (\<lambda>step. \<exists>v. step = Resolves v) steps"
  then have all: "list_all (\<lambda>step. \<exists>v. step = Resolves v) (preactions env)" by auto
  have start: "(if confirm_execution env
      then (OpenConfirmationModal # fst (confirmation_step (confirmation_modal env)),
            snd (confirmation_step (confirmation_modal env)))
      else ([], Resolves True)) =
      ((if confirm_execution env then [OpenConfirmationModal] else []), Resolves True)"
    using a by (simp add: confirmation_step_def)
  have steps: "add_preactions 0 (Resolves True) (preactions env) =
      (map PerformPreaction [0..<length (preactions env)], Resolves False)"
    using add_preactions_all_resolve [OF all, of 0 True] a by simp
  show "run_pipeline env ov =
      (if confirm_execution env then [OpenConfirmationModal] else []) @
      map PerformPreaction [0..<length (preactions env)]"
    unfolding run_pipeline_def start Let_def
    by (simp add: steps after_preactions_def)
qed

theorem pipeline_cancellation_witness:
  "run_pipeline (example_pipeline\<lparr>confirm_execution := True,
       confirmation_modal := Resolves False\<rparr>) None = [OpenConfirmationModal] \<and>
   run_pipeline (example_pipeline\<lparr>confirm_execution := True,
       confirmation_modal := Rejects ''closed''\<rparr>) None =
     [OpenConfirmationModal, UnhandledRejection ''closed''] \<and>
   run_pipeline (example_pipeline\<lparr>preactions := [Resolves True, Resolves False]\<rparr>) None =
     [PerformPreaction 0, PerformPreaction 1]"
proof -
  let ?declined = "example_pipeline\<lparr>confirm_execution := True,
      confirmation_modal := Resolves False\<rparr>"
  let ?rejected = "example_pipeline\<lparr>confirm_execution := True,
      confirmation_modal := Rejects ''closed''\<rparr>"
  let ?cancelled = "example_pipeline\<lparr>preactions := [Resolves True, Resolves False]\<rparr>"
  from pipeline_cancellation [where env = ?declined and ov = None]
  have r1: "run_pipeline ?declined None = [OpenConfirmationModal]" by simp
  from pipeline_cancellation [where env = ?rejected and ov = None and message = "''closed''"]
  have r2: "run_pipeline ?rejected None = [OpenConfirmationModal, UnhandledRejection ''closed'']"
    by simp
  have c: "confirm_execution ?cancelled \<longrightarrow> confirmation_modal ?cancelled = Resolves True"
    by (simp add: example_pipeline_def)
  have p: "preactions ?cancelled = [Resolves True] @ [Resolves False]" by simp
  have a: "list_all (\<lambda>step. \<exists>v. step = Resolves v) [Resolves True]" by auto
  from pipeline_cancellation [where env = ?cancelled and ov = None and steps = "[Resolves True]"]
    c p a
  have "run_pipeline ?cancelled None =
      (if confirm_execution ?cancelled then [OpenConfirmationModal] else []) @
      map PerformPreaction [0..<length (preactions ?cancelled)]"
    by blast
  then have r3: "run_pipeline ?cancelled None = [PerformPreaction 0, PerformPreaction 1]"
    by (simp add: example_pipeline_def upt_rec)
  from r1 r2 r3 show ?thesis by simp
qed

text \<open>
  C3. The claim fails on the code where a preaction that is not the last one resolves
  to "do not proceed": the callbacks of the pipeline take no argument, so the value is
  dropped, the next preaction is performed, and the last callback sees only what the
  last preaction resolved to. In the example run the first of two preactions resolves
  to \<open>false\<close> and the second to \<open>true\<close>; the second preaction is performed,
  \<open>processRest()\<close> is called and the command is spawned.
\<close>

theorem cancelled_preaction_does_not_stop_the_pipeline:
  "doPreactionsAndExecuteShellCommand example_pipeline True None =
    [PerformPreaction 0, PerformPreaction 1, ProcessRest,
     CallSpawnChildProcess ''ls'' ''/home/me/vault'',
     OnError, SetEncoding Stdout, SetEncoding Stderr,
     HandleBufferedOutput example_child (''notification'', ''notification'')]"
proof -
  let ?r = "shell_command_parsing_result example_pipeline"
  have r: "?r = example_result ''ls''"
    by (simp add: shell_command_parsing_result_def example_pipeline_def example_result_def
        Let_def)
  have dir: "ShellCommandExecutor_getWorkingDirectory (path example_env)
      (vaultAbsolutePath example_env) (working_directory example_env) = ''/home/me/vault''"
    by (simp add: ShellCommandExecutor_getWorkingDirectory_def example_env_def)
  have spawn: "spawn_and_attach example_env (example_result ''ls'')
      (effective_outputHandlers example_env None) ''/home/me/vault'' =
      ([CallSpawnChildProcess ''ls'' ''/home/me/vault'', OnError, SetEncoding Stdout,
        SetEncoding Stderr,
        HandleBufferedOutput example_child (''notification'', ''notification'')], None)"
    by (simp add: spawn_and_attach_def example_env_def example_result_def example_child_def
        effective_outputHandlers_def)
  have command: "trim (unwrappedShellCommandContent (example_result ''ls'')) = ''ls''"
    by (simp add: example_result_def trim_def is_js_whitespace_def)
  have checks: "existsSync example_env ''/home/me/vault''"
    "lstat_isDirectory example_env ''/home/me/vault''"
    "environment_variable_path_augmentation (example_result ''ls'') = []"
    by (simp_all add: example_env_def example_result_def)
  have run: "executeShellCommand example_env (example_result ''ls'') None =
      ([CallSpawnChildProcess ''ls'' ''/home/me/vault'', OnError, SetEncoding Stdout,
        SetEncoding Stderr,
        HandleBufferedOutput example_child (''notification'', ''notification'')], None)"
    unfolding executeShellCommand_def dir Let_def command
    using checks spawn by simp
  have steps: "add_preactions 0 (Resolves True) [Resolves False, Resolves True] =
      ([PerformPreaction 0, PerformPreaction 1], Resolves True)"
    by simp
  have env: "execution example_pipeline = example_env" "\<not> confirm_execution example_pipeline"
    "preactions example_pipeline = [Resolves False, Resolves True]"
    "processRest_succeeds example_pipeline"
    by (simp_all add: example_pipeline_def)
  have last: "after_preactions example_pipeline None (Resolves True) =
      ProcessRest # fst (executeShellCommand example_env (example_result ''ls'') None)"
    unfolding after_preactions_def r env(1) run using env(4) by simp
  show ?thesis
    unfolding doPreactionsAndExecuteShellCommand_def run_pipeline_def
    using env(2,3) steps last run by simp
qed

subsection \<open>The cache of the command palette\<close>

lemma example_legacy_plugin_cache:
  "preparsed_shell_command_configurations example_legacy_plugin =
    \<lparr>own_properties =
       [''0'' \<mapsto> Some \<lparr>shell_command = ''ls'', alias_name = []\<rparr>,
        ''1'' \<mapsto> Some \<lparr>shell_command = ''echo '' @ replicate 60 (CHR ''a''), alias_name = []\<rparr>],
     prototype = None\<rparr>"
  by (simp add: example_legacy_plugin_def legacy_checkCallback_def example_legacy_env_def
      assign_def empty_object_def Let_def)

lemma example_plugin_cache:
  "cached_parsing_processes example_plugin =
    \<lparr>own_properties = [''0'' \<mapsto> Some ''parsing process of 0''], prototype = None\<rparr>"
  by (simp add: example_plugin_def checkCallback_def example_palette_env_def assign_def
      empty_object_def Let_def)

text \<open>
  C8. The code departs from the claim, and from its own comments, which say that the
  cache is emptied after every execution. The statement that empties the cache follows
  the call that executes the shell command, with nothing to catch an exception of that
  call. In the first plugin class the call throws when \<open>exec\<close> throws at once: the
  exception leaves the callback, and the cache still holds what the command palette
  has parsed for both shell commands. In the second plugin class the call throws for a
  shell command whose ID is \<open>constructor\<close>: the cache, a plain object, has an inherited
  property of that name, which is no parsing process.
\<close>

theorem cache_kept_when_execution_throws:
  "legacy_checkCallback (example_legacy_env ''1'' ''echo {{clipboard}}'') example_legacy_plugin False =
     (example_legacy_plugin,
      [ExecuteShellCommand (Some (''echo '' @ replicate 60 (CHR ''a'')))],
      None, Some (Exception ''spawn E2BIG'')) \<and>
   lookup property_of_configuration
       (preparsed_shell_command_configurations example_legacy_plugin) ''0'' =
     Stored \<lparr>shell_command = ''ls'', alias_name = []\<rparr> \<and>
   checkCallback (example_palette_env ''constructor'') example_plugin False =
     (example_plugin, [], None,
      Some (Exception ''TypeError: parsing_process.process is not a function'')) \<and>
   lookup (property_of_parsing_process (example_palette_env ''constructor''))
       (cached_parsing_processes example_plugin) ''0'' =
     Stored ''parsing process of 0''"
proof (intro conjI)
  show "legacy_checkCallback (example_legacy_env ''1'' ''echo {{clipboard}}'')
      example_legacy_plugin False =
     (example_legacy_plugin,
      [ExecuteShellCommand (Some (''echo '' @ replicate 60 (CHR ''a'')))],
      None, Some (Exception ''spawn E2BIG''))"
    unfolding legacy_checkCallback_def example_legacy_plugin_cache
    by (simp add: example_legacy_env_def lookup_def legacy_executeShellCommand_def)
  show "lookup property_of_configuration
      (preparsed_shell_command_configurations example_legacy_plugin) ''0'' =
     Stored \<lparr>shell_command = ''ls'', alias_name = []\<rparr>"
    unfolding example_legacy_plugin_cache by (simp add: lookup_def)
  show "checkCallback (example_palette_env ''constructor'') example_plugin False =
     (example_plugin, [], None,
      Some (Exception ''TypeError: parsing_process.process is not a function''))"
    unfolding checkCallback_def example_plugin_cache
    by (simp add: example_palette_env_def lookup_def executor_def
        Object_prototype_properties_def)
  show "lookup (property_of_parsing_process (example_palette_env ''constructor''))
      (cached_parsing_processes example_plugin) ''0'' = Stored ''parsing process of 0''"
    unfolding example_plugin_cache by (simp add: lookup_def)
qed

text \<open>
  What does hold. When the callback is called to execute the shell command and the
  call that executes it returns, the cache is empty afterwards, whatever it held
  before, whether or not a cached value was used and whether or not parsing succeeded;
  when the call throws, the plugin is left as it was. After the cache has been emptied,
  a shell command whose ID is no name of a property that objects inherit is executed
  on a newly created parsing process.
\<close>

theorem preparsed_cache_cleared:
  "(snd (snd (snd (checkCallback env plugin False))) = None \<longrightarrow>
      cached_parsing_processes (fst (checkCallback env plugin False)) = empty_object) \<and>
   (snd (snd (snd (checkCallback env plugin False))) \<noteq> None \<longrightarrow>
      fst (checkCallback env plugin False) = plugin) \<and>
   (snd (snd (snd (legacy_checkCallback lenv lplugin False))) = None \<longrightarrow>
      preparsed_shell_command_configurations (fst (legacy_checkCallback lenv lplugin False)) =
        empty_object) \<and>
   (snd (snd (snd (legacy_checkCallback lenv lplugin False))) \<noteq> None \<longrightarrow>
      fst (legacy_checkCallback lenv lplugin False) = lplugin) \<and>
   (shell_command_id env \<notin> set (''__proto__'' # Object_prototype_properties) \<longrightarrow>
      executor env (lookup (property_of_parsing_process env) empty_object (shell_command_id env)) =
        executor env Undefined)"
proof (intro conjI impI)
  obtain effects exception where e: "executor env
      (lookup (property_of_parsing_process env) (cached_parsing_processes plugin)
         (shell_command_id env)) = (effects, exception)"
    by (cases "executor env
      (lookup (property_of_parsing_process env) (cached_parsing_processes plugin)
         (shell_command_id env))")
  have c: "checkCallback env plugin False =
      (case exception of
        Some thrown \<Rightarrow> (plugin, effects, None, Some thrown)
      | None \<Rightarrow> (plugin\<lparr>cached_parsing_processes := empty_object\<rparr>, effects, None, None))"
    by (simp add: checkCallback_def e split: option.splits)
  {
    assume "snd (snd (snd (checkCallback env plugin False))) = None"
    then show "cached_parsing_processes (fst (checkCallback env plugin False)) = empty_object"
      unfolding c by (cases exception) simp_all
  }
  {
    assume "snd (snd (snd (checkCallback env plugin False))) \<noteq> None"
    then show "fst (checkCallback env plugin False) = plugin"
      unfolding c by (cases exception) simp_all
  }
  define call where "call =
      (case lookup property_of_configuration
              (preparsed_shell_command_configurations lplugin) (command_id lenv) of
        Undefined \<Rightarrow>
          (case parseShellCommandVariables lenv
                  (shell_command (shell_command_configuration lenv)) True of
            None \<Rightarrow> ([], None)
          | Some parsed_shell_command \<Rightarrow>
              legacy_executeShellCommand lenv (Some parsed_shell_command))
      | Stored preparsed \<Rightarrow> legacy_executeShellCommand lenv (Some (shell_command preparsed))
      | Other \<Rightarrow> legacy_executeShellCommand lenv None)"
  have l: "legacy_checkCallback lenv lplugin False =
      (case snd call of
        Some thrown \<Rightarrow> (lplugin, fst call, None, Some thrown)
      | None \<Rightarrow>
          (lplugin\<lparr>preparsed_shell_command_configurations := empty_object\<rparr>, fst call,
           None, None))"
    unfolding legacy_checkCallback_def call_def [symmetric]
    by (cases call) (simp split: option.splits)
  {
    assume "snd (snd (snd (legacy_checkCallback lenv lplugin False))) = None"
    then show "preparsed_shell_command_configurations
        (fst (legacy_checkCallback lenv lplugin False)) = empty_object"
      unfolding l by (cases "snd call") simp_all
  }
  {
    assume "snd (snd (snd (legacy_checkCallback lenv lplugin False))) \<noteq> None"
    then show "fst (legacy_checkCallback lenv lplugin False) = lplugin"
      unfolding l by (cases "snd call") simp_all
  }
  {
    assume "shell_command_id env \<notin> set (''__proto__'' # Object_prototype_properties)"
    then have "lookup (property_of_parsing_process env) empty_object (shell_command_id env) =
        Undefined"
      by (simp add: lookup_def empty_object_def)
    then show "executor env
        (lookup (property_of_parsing_process env) empty_object (shell_command_id env)) =
        executor env Undefined"
      by simp
  }
qed

theorem preparsed_cache_cleared_witness:
  "snd (snd (snd (checkCallback (example_palette_env ''0'') example_plugin False))) = None \<and>
   cached_parsing_processes (fst (checkCallback (example_palette_env ''0'') example_plugin False)) =
     empty_object \<and>
   snd (snd (snd (legacy_checkCallback (example_legacy_env ''0'' ''ls'') example_legacy_plugin
     False))) = None \<and>
   preparsed_shell_command_configurations
     (fst (legacy_checkCallback (example_legacy_env ''0'' ''ls'') example_legacy_plugin False)) =
     empty_object \<and>
   snd (snd (snd (legacy_checkCallback (example_legacy_env ''1'' ''echo {{clipboard}}'')
     example_legacy_plugin False))) \<noteq> None \<and>
   fst (legacy_checkCallback (example_legacy_env ''1'' ''echo {{clipboard}}'')
     example_legacy_plugin False) = example_legacy_plugin \<and>
   executor (example_palette_env ''0'')
     (lookup (property_of_parsing_process (example_palette_env ''0'')) empty_object ''0'') =
     ([ExecutorDoPreactionsAndExecuteShellCommand ''parsing process of 0''], None)"
proof -
  let ?env = "example_palette_env ''0''"
  let ?lenv = "example_legacy_env ''0'' ''ls''"
  let ?lenv1 = "example_legacy_env ''1'' ''echo {{clipboard}}''"
  have n: "snd (snd (snd (checkCallback ?env example_plugin False))) = None"
    unfolding checkCallback_def example_plugin_cache
    by (simp add: example_palette_env_def lookup_def executor_def)
  have ln: "snd (snd (snd (legacy_checkCallback ?lenv example_legacy_plugin False))) = None"
    unfolding legacy_checkCallback_def example_legacy_plugin_cache
    by (simp add: example_legacy_env_def lookup_def legacy_executeShellCommand_def)
  have lt: "snd (snd (snd (legacy_checkCallback ?lenv1 example_legacy_plugin False))) \<noteq> None"
    unfolding legacy_checkCallback_def example_legacy_plugin_cache
    by (simp add: example_legacy_env_def lookup_def legacy_executeShellCommand_def)
  have i: "shell_command_id ?env \<notin> set (''__proto__'' # Object_prototype_properties)"
    by (simp add: example_palette_env_def Object_prototype_properties_def)
  have u: "executor ?env Undefined =
      ([ExecutorDoPreactionsAndExecuteShellCommand ''parsing process of 0''], None)"
    by (simp add: executor_def example_palette_env_def)
  note t = preparsed_cache_cleared [where env = ?env and plugin = example_plugin
      and lenv = ?lenv and lplugin = example_legacy_plugin]
  note t1 = preparsed_cache_cleared [where env = ?env and plugin = example_plugin
      and lenv = ?lenv1 and lplugin = example_legacy_plugin]
  from t n have r1: "cached_parsing_processes (fst (checkCallback ?env example_plugin False)) =
      empty_object" by blast
  from t ln have r2: "preparsed_shell_command_configurations
      (fst (legacy_checkCallback ?lenv example_legacy_plugin False)) = empty_object" by blast
  from t1 lt have r3: "fst (legacy_checkCallback ?lenv1 example_legacy_plugin False) =
      example_legacy_plugin" by blast
  from t i have "executor ?env (lookup (property_of_parsing_process ?env) empty_object
      (shell_command_id ?env)) = executor ?env Undefined" by blast
  then have r4: "executor ?env (lookup (property_of_parsing_process ?env) empty_object ''0'') =
      ([ExecutorDoPreactionsAndExecuteShellCommand ''parsing process of 0''], None)"
    unfolding u by (simp add: example_palette_env_def)
  from n r1 ln r2 lt r3 r4 show ?thesis by blast
qed

subsection \<open>New shell command IDs\<close>

lemma digit_char_all:
  "list_all (\<lambda>d. digit_char d \<in> set ''0123456789'' \<and> digit_value 10 (digit_char d) = Some d) [0..<10]"
  by code_simp

lemma digit_char_facts:
  assumes "d < 10"
  shows "digit_char d \<in> set ''0123456789''" "digit_value 10 (digit_char d) = Some d"
proof -
  from assms have "d \<in> set [0..<10]" by simp
  with digit_char_all
  have "digit_char d \<in> set ''0123456789'' \<and> digit_value 10 (digit_char d) = Some d"
    unfolding list_all_iff by blast
  then show "digit_char d \<in> set ''0123456789''" "digit_value 10 (digit_char d) = Some d"
    by blast+
qed

lemma decimal_digit_all:
  "list_all (\<lambda>c. \<not> is_js_whitespace c \<and> c \<noteq> CHR ''-'' \<and> c \<noteq> CHR ''+'' \<and> c \<noteq> CHR ''x'' \<and>
      c \<noteq> CHR ''X'' \<and> digit_value 10 c \<noteq> None) ''0123456789''"
  by code_simp

lemma decimal_digit_facts:
  assumes "c \<in> set ''0123456789''"
  shows "\<not> is_js_whitespace c" "c \<noteq> CHR ''-''" "c \<noteq> CHR ''+''" "c \<noteq> CHR ''x''" "c \<noteq> CHR ''X''"
    "digit_value 10 c \<noteq> None"
  using assms decimal_digit_all unfolding list_all_iff by blast+

lemma String_nat_digits:
  "String_nat n \<noteq> [] \<and> set (String_nat n) \<subseteq> set ''0123456789''"
proof (induction n rule: String_nat.induct)
  case (1 n)
  show ?case
  proof (cases "n < 10")
    case True
    then have "String_nat n = [digit_char n]" by (simp add: String_nat.simps)
    with digit_char_facts(1) [OF True] show ?thesis by simp
  next
    case False
    then have s: "String_nat n = String_nat (n div 10) @ [digit_char (n mod 10)]"
      by (subst String_nat.simps) simp
    have "digit_char (n mod 10) \<in> set ''0123456789''"
      by (rule digit_char_facts(1)) simp
    with 1 [OF False] s show ?thesis by simp
  qed
qed

lemma digits_value_snoc:
  "digits_value radix (ds @ [c]) =
    (case digit_value radix c of
      None \<Rightarrow> digits_value radix ds
    | Some d \<Rightarrow> digits_value radix ds * radix + d)"
  by (simp add: digits_value_def split: option.splits)

lemma digits_value_String_nat:
  "digits_value 10 (String_nat n) = n"
proof (induction n rule: String_nat.induct)
  case (1 n)
  show ?case
  proof (cases "n < 10")
    case True
    then have "String_nat n = [] @ [digit_char n]" by (simp add: String_nat.simps)
    then have "digits_value 10 (String_nat n) =
        (case digit_value 10 (digit_char n) of
          None \<Rightarrow> digits_value 10 []
        | Some d \<Rightarrow> digits_value 10 [] * 10 + d)"
      by (simp only: digits_value_snoc)
    with digit_char_facts(2) [OF True] show ?thesis by (simp add: digits_value_def)
  next
    case False
    then have s: "String_nat n = String_nat (n div 10) @ [digit_char (n mod 10)]"
      by (subst String_nat.simps) simp
    have d: "digit_value 10 (digit_char (n mod 10)) = Some (n mod 10)"
      by (rule digit_char_facts(2)) simp
    show ?thesis
      unfolding s digits_value_snoc d using 1 [OF False] by simp
  qed
qed

lemma parse_magnitude_String_nat:
  "parse_magnitude (String_nat n) = Some n"
proof -
  have digits: "\<And>c. c \<in> set (String_nat n) \<Longrightarrow> c \<in> set ''0123456789''"
    using String_nat_digits [of n] by blast
  have not_hex: "(case String_nat n of
        zero # x # _ \<Rightarrow> zero = CHR ''0'' \<and> (x = CHR ''x'' \<or> x = CHR ''X'')
      | _ \<Rightarrow> False) = False"
  proof (cases "String_nat n")
    case Nil
    then show ?thesis by simp
  next
    case (Cons zero rest)
    show ?thesis
    proof (cases rest)
      case Nil
      with Cons show ?thesis by simp
    next
      case (Cons x rest')
      with \<open>String_nat n = zero # rest\<close> have "x \<in> set (String_nat n)" by simp
      from decimal_digit_facts(4,5) [OF digits [OF this]]
      show ?thesis using Cons \<open>String_nat n = zero # rest\<close> by simp
    qed
  qed
  have all: "takeWhile (\<lambda>c. digit_value 10 c \<noteq> None) (String_nat n) = String_nat n"
    unfolding takeWhile_eq_all_conv using digits decimal_digit_facts(6) by blast
  have "parse_magnitude (String_nat n) =
      (if String_nat n = [] then None else Some (digits_value 10 (String_nat n)))"
    unfolding parse_magnitude_def not_hex Let_def by (simp only: all if_False)
  then show ?thesis
    using String_nat_digits [of n] by (simp add: digits_value_String_nat)
qed

lemma parseInt_String_nat:
  assumes "int n \<le> 2 ^ 53"
  shows "parseInt (String_nat n) = Exact (int n)"
proof -
  obtain c rest where s: "String_nat n = c # rest"
    using String_nat_digits [of n] by (cases "String_nat n") auto
  then have "c \<in> set ''0123456789''" using String_nat_digits [of n] by auto
  note c = decimal_digit_facts(1-3) [OF this]
  have "parseInt (c # rest) =
      (case parse_magnitude (c # rest) of
        None \<Rightarrow> NaN
      | Some n \<Rightarrow> if int n \<le> 2 ^ 53 then Exact (int n) else TooLarge)"
    using c by (simp add: parseInt_def)
  then show ?thesis
    using parse_magnitude_String_nat [of n] assms by (simp add: s)
qed

lemma next_new_id_max:
  assumes "safe_id existing"
  shows "next_new_id existing (Some new_id) =
    (case exact_id existing of None \<Rightarrow> Some new_id | Some e \<Rightarrow> Some (max new_id (e + 1)))"
proof (cases "parseInt existing")
  case NaN
  then show ?thesis by (simp add: next_new_id_def exact_id_def)
next
  case (Exact e)
  with assms have "e \<le> 2 ^ 53 - 1" by (simp add: safe_id_def MAX_SAFE_INTEGER_def)
  then have "plus_one e = e + 1" by (simp add: plus_one_def)
  with Exact show ?thesis by (simp add: next_new_id_def exact_id_def max_def)
next
  case TooLarge
  with assms show ?thesis by (simp add: safe_id_def)
qed

lemma parsed_ids_Cons:
  "parsed_ids (x # xs) =
    (case exact_id x of None \<Rightarrow> parsed_ids xs | Some e \<Rightarrow> e # parsed_ids xs)"
  by (simp add: parsed_ids_def split: option.splits)

lemma fold_next_new_id:
  assumes "list_all safe_id ids"
  shows "fold next_new_id ids (Some a) =
    Some (Max (insert a ((\<lambda>n. n + 1) ` set (parsed_ids ids))))"
  using assms
proof (induction ids arbitrary: a)
  case Nil
  then show ?case by (simp add: parsed_ids_def)
next
  case (Cons x xs)
  let ?S = "(\<lambda>n. n + 1) ` set (parsed_ids xs)"
  have fin: "finite ?S" by simp
  from Cons.prems have x: "safe_id x" and xs: "list_all safe_id xs" by simp_all
  show ?case
  proof (cases "exact_id x")
    case None
    then show ?thesis
      using Cons.IH [OF xs, of a] by (simp add: next_new_id_max [OF x] parsed_ids_Cons)
  next
    case (Some e)
    have "Max (insert (max a (e + 1)) ?S) = Max (insert a (insert (e + 1) ?S))"
    proof (cases "?S = {}")
      case True
      then show ?thesis by simp
    next
      case False
      then show ?thesis using fin by (simp add: max.assoc)
    qed
    then show ?thesis
      using Some Cons.IH [OF xs, of "max a (e + 1)"]
      by (simp add: next_new_id_max [OF x] parsed_ids_Cons)
  qed
qed

lemma parsed_ids_mem:
  "x \<in> set ids \<Longrightarrow> exact_id x = Some m \<Longrightarrow> m \<in> set (parsed_ids ids)"
  by (induction ids) (auto simp: parsed_ids_Cons split: option.splits)

lemma parsed_ids_safe:
  "list_all safe_id ids \<Longrightarrow> m \<in> set (parsed_ids ids) \<Longrightarrow> m \<le> MAX_SAFE_INTEGER"
proof (induction ids)
  case Nil
  then show ?case by (simp add: parsed_ids_def)
next
  case (Cons x xs)
  show ?case
  proof (cases "parseInt x")
    case (Exact e)
    with Cons.prems(1) have "e \<le> MAX_SAFE_INTEGER" by (simp add: safe_id_def)
    with Exact Cons show ?thesis by (auto simp: parsed_ids_Cons exact_id_def)
  qed (use Cons in \<open>auto simp: parsed_ids_Cons exact_id_def\<close>)
qed

lemma new_id_bounds:
  assumes "list_all safe_id ids"
  defines "m \<equiv> Max (insert 0 ((\<lambda>n. n + 1) ` set (parsed_ids ids)))"
  shows "0 \<le> m" "m \<le> 2 ^ 53" "n \<in> set (parsed_ids ids) \<Longrightarrow> n < m"
proof -
  let ?S = "(\<lambda>n. n + 1) ` set (parsed_ids ids)"
  have fin: "finite (insert 0 ?S)" by simp
  show "0 \<le> m" unfolding m_def using Max_ge [OF fin, of 0] by simp
  have "\<And>k. k \<in> insert 0 ?S \<Longrightarrow> k \<le> 2 ^ 53"
    using parsed_ids_safe [OF assms(1)] by (auto simp: MAX_SAFE_INTEGER_def)
  then show "m \<le> 2 ^ 53" unfolding m_def using fin by (intro Max.boundedI) auto
  assume "n \<in> set (parsed_ids ids)"
  then have "n + 1 \<in> insert 0 ?S" by simp
  from Max_ge [OF fin this] show "n < m" unfolding m_def by simp
qed

lemma generateNewShellCommandID_fresh:
  assumes "list_all safe_id ids"
  shows "\<exists>new_id. generateNewShellCommandID ids = Some new_id \<and> new_id \<notin> set ids"
proof -
  define m where "m = Max (insert 0 ((\<lambda>n. n + 1) ` set (parsed_ids ids)))"
  note b = new_id_bounds [OF assms, folded m_def]
  have g: "generateNewShellCommandID ids = Some (String_nat (nat m))"
    using b(1) by (simp add: generateNewShellCommandID_def fold_next_new_id [OF assms]
        String_int_def m_def)
  have "String_nat (nat m) \<notin> set ids"
  proof
    assume mem: "String_nat (nat m) \<in> set ids"
    have "parseInt (String_nat (nat m)) = Exact m"
      using parseInt_String_nat [of "nat m"] b(1,2) by simp
    then have "exact_id (String_nat (nat m)) = Some m" by (simp add: exact_id_def)
    from parsed_ids_mem [OF mem this] have "m \<in> set (parsed_ids ids)" .
    from b(3) [OF this] show False by simp
  qed
  with g show ?thesis by simp
qed


text \<open>
  Where every existing ID is no number or stands for an integer of at most
  \<open>MAX_SAFE_INTEGER\<close>, as the IDs that this method has produced do:
  \<open>generateNewShellCommandID\<close> returns \<open>"0"\<close> when no existing ID stands for an integer
  of at least 0, in particular when there is no shell command; otherwise it returns one
  plus the largest integer an existing ID stands for, as a string; and what it returns
  is no existing ID.
\<close>

theorem new_shell_command_id:
  "list_all safe_id ids \<longrightarrow>
     generateNewShellCommandID [] = Some ''0'' \<and>
     (list_all (\<lambda>n. n < 0) (parsed_ids ids) \<longrightarrow> generateNewShellCommandID ids = Some ''0'') \<and>
     (list_ex (\<lambda>n. n \<ge> 0) (parsed_ids ids) \<longrightarrow>
        generateNewShellCommandID ids = Some (String_int (Max (set (parsed_ids ids)) + 1))) \<and>
     (\<exists>new_id. generateNewShellCommandID ids = Some new_id \<and> new_id \<notin> set ids)"
proof (intro impI conjI)
  assume safe: "list_all safe_id ids"
  have zero: "String_int 0 = ''0''"
    by (simp add: String_int_def String_nat.simps digit_char_def)
  show "generateNewShellCommandID [] = Some ''0''"
    by (simp add: generateNewShellCommandID_def zero)
  let ?P = "set (parsed_ids ids)"
  let ?S = "(\<lambda>n. n + 1) ` ?P"
  {
    assume "list_all (\<lambda>n. n < 0) (parsed_ids ids)"
    then have "\<And>k. k \<in> insert 0 ?S \<Longrightarrow> k \<le> 0"
      unfolding list_all_iff by auto
    then have "Max (insert 0 ?S) = 0"
      by (intro Max_eqI) auto
    then show "generateNewShellCommandID ids = Some ''0''"
      by (simp add: generateNewShellCommandID_def fold_next_new_id [OF safe] zero)
  }
  {
    assume "list_ex (\<lambda>n. n \<ge> 0) (parsed_ids ids)"
    then obtain n where n: "n \<in> ?P" "0 \<le> n" unfolding list_ex_iff by blast
    then have ne: "?P \<noteq> {}" by auto
    have "mono (\<lambda>n::int. n + 1)" by (simp add: mono_def)
    from mono_Max_commute [OF this _ ne] have image: "Max ?S = Max ?P + 1" by simp
    have "n \<le> Max ?P" using n(1) by simp
    with n(2) image have "0 \<le> Max ?S" by simp
    moreover have "?S \<noteq> {}" using ne by simp
    ultimately have "Max (insert 0 ?S) = Max ?P + 1"
      using image by (simp add: max_def)
    then show "generateNewShellCommandID ids = Some (String_int (Max (set (parsed_ids ids)) + 1))"
      by (simp add: generateNewShellCommandID_def fold_next_new_id [OF safe])
  }
  show "\<exists>new_id. generateNewShellCommandID ids = Some new_id \<and> new_id \<notin> set ids"
    by (rule generateNewShellCommandID_fresh [OF safe])
qed

theorem new_shell_command_id_witness:
  "list_all safe_id [''0'', ''1'', ''7'', ''new''] \<and>
   generateNewShellCommandID [''0'', ''1'', ''7'', ''new''] = Some ''8'' \<and>
   ''8'' \<notin> set [''0'', ''1'', ''7'', ''new''] \<and>
   list_all safe_id [''-5'', ''new''] \<and>
   generateNewShellCommandID [''-5'', ''new''] = Some ''0''"
proof -
  let ?ids = "[''0'', ''1'', ''7'', ''new'']"
  let ?ids' = "[''-5'', ''new'']"
  have p1: "parsed_ids ?ids = [0, 1, 7]" by code_simp
  have p2: "parsed_ids ?ids' = [- 5]" by code_simp
  have s: "String_int (Max (set [0, 1, 7]) + 1) = ''8''"
    by (simp add: String_int_def String_nat.simps digit_char_def)
  have safe: "list_all safe_id ?ids" "list_all safe_id ?ids'" by code_simp+
  have some: "list_ex (\<lambda>n. n \<ge> 0) (parsed_ids ?ids)" unfolding p1 by simp
  have none: "list_all (\<lambda>n. n < 0) (parsed_ids ?ids')" unfolding p2 by simp
  from new_shell_command_id [of ?ids] safe(1) some
  have "generateNewShellCommandID ?ids = Some (String_int (Max (set (parsed_ids ?ids)) + 1))"
    by blast
  then have r1: "generateNewShellCommandID ?ids = Some ''8''"
    unfolding p1 s by simp
  have r2: "''8'' \<notin> set ?ids" by simp
  from new_shell_command_id [of ?ids'] safe(2) none
  have r3: "generateNewShellCommandID ?ids' = Some ''0''" by blast
  from safe r1 r2 r3 show ?thesis by blast
qed
subsection \<open>The default value of a prompt field\<close>

lemma valueHasChanged_field_value:
  "field_value (valueHasChanged parseVariables field) = field_value field"
  by (simp add: valueHasChanged_def Let_def)

text \<open>
  C10. After \<open>applyDefaultValue\<close> the form field holds the unparsed \<open>default_value\<close>
  when parsing it failed, and the parsed content when parsing succeeded; so it always
  holds one of the two, never an error message.
\<close>

theorem default_value_fallback:
  "(\<not> succeeded (parseVariables (default_value field)) \<longrightarrow>
      field_value (applyDefaultValue parseVariables field) = Some (default_value field)) \<and>
   (succeeded (parseVariables (default_value field)) \<longrightarrow>
      field_value (applyDefaultValue parseVariables field) =
        parsed_content (parseVariables (default_value field))) \<and>
   (field_value (applyDefaultValue parseVariables field) = Some (default_value field) \<or>
    field_value (applyDefaultValue parseVariables field) =
      parsed_content (parseVariables (default_value field)))"
  by (simp add: applyDefaultValue_def valueHasChanged_field_value setValue_def Let_def)

theorem default_value_fallback_witness:
  "field_value (applyDefaultValue example_parseVariables (example_field ''{{titel}}'')) =
     Some ''{{titel}}'' \<and>
   field_value (applyDefaultValue example_parseVariables (example_field ''{{title}}'')) =
     Some ''My Note''"
proof -
  have f: "\<not> succeeded (example_parseVariables (default_value (example_field ''{{titel}}'')))"
    by (simp add: example_parseVariables_def example_field_def)
  have s: "succeeded (example_parseVariables (default_value (example_field ''{{title}}'')))"
    by (simp add: example_parseVariables_def example_field_def)
  from default_value_fallback [of example_parseVariables "example_field ''{{titel}}''"] f
  have r1: "field_value (applyDefaultValue example_parseVariables (example_field ''{{titel}}'')) =
      Some ''{{titel}}''"
    by (simp add: example_field_def)
  from default_value_fallback [of example_parseVariables "example_field ''{{title}}''"] s
  have r2: "field_value (applyDefaultValue example_parseVariables (example_field ''{{title}}'')) =
      Some ''My Note''"
    by (simp add: example_field_def example_parseVariables_def)
  from r1 r2 show ?thesis by simp
qed

end
